theory Spec2Isabelle
  imports Main "HOL-Library.AList"
begin

section \<open>Python values\<close>

text \<open>
  The scraper works on the decoded JSON document of one game and on values derived from
  it. Python is dynamically typed, so every value the program handles is a \<open>pyval\<close>:
  \<open>None\<close>, a boolean, an (unbounded) integer, the float \<open>nan\<close> (\<open>np.nan\<close>, the only float
  the program itself produces), a string, a list or a dictionary with string keys.
  Strings are byte lists (UTF-8); the substring test agrees with Python's on code points.
  Other floats do not occur in what is modelled here: the functions \<open>get_home_away\<close>,
  \<open>convert_clock_to_seconds\<close>, \<open>timeout_decrementor\<close> and \<open>get_play_by_play\<close> (from the
  decoded response on) of \<open>01-cfdscraper.py\<close>, and the cleanup loop of \<open>02-clean.py\<close>.
  The download, the season loop \<open>extract_season\<close> and \<open>get_teams\<close> are outside.
\<close>

datatype pyval =
    PNone
  | PBool bool
  | PInt int
  | PNaN
  | PStr string
  | PList "pyval list"
  | PDict "(string \<times> pyval) list"

text \<open>The exceptions the program can meet. A raise is the value \<open>Inl e\<close>.\<close>

datatype py_error =
    AttributeError
  | TypeError
  | KeyError
  | IndexError
  | ValueError
  | UnboundLocalError
  | FileNotFoundError

definition ebind :: "py_error + 'a \<Rightarrow> ('a \<Rightarrow> py_error + 'b) \<Rightarrow> py_error + 'b" where
  "ebind m f = (case m of Inl e \<Rightarrow> Inl e | Inr x \<Rightarrow> f x)"

text \<open>
  \<open>a == b\<close>. Booleans compare as the integers 0 and 1, \<open>nan\<close> equals nothing. The
  program compares identifiers, labels and numbers only; lists and dictionaries are
  compared structurally here.
\<close>

fun py_eq :: "pyval \<Rightarrow> pyval \<Rightarrow> bool" where
  "py_eq PNaN _ = False"
| "py_eq _ PNaN = False"
| "py_eq (PBool b) (PInt n) = ((if b then 1 else 0) = n)"
| "py_eq (PInt n) (PBool b) = (n = (if b then 1 else 0))"
| "py_eq x y = (x = y)"

text \<open>\<open>x.get(k)\<close>: only a dictionary has the method; a missing key gives \<open>None\<close>.\<close>

fun py_get :: "pyval \<Rightarrow> string \<Rightarrow> py_error + pyval" where
  "py_get (PDict kvs) k = Inr (case map_of kvs k of None \<Rightarrow> PNone | Some v \<Rightarrow> v)"
| "py_get _ k = Inl AttributeError"

text \<open>\<open>x[k]\<close> with a string key.\<close>

fun py_item :: "pyval \<Rightarrow> string \<Rightarrow> py_error + pyval" where
  "py_item (PDict kvs) k = (case map_of kvs k of None \<Rightarrow> Inl KeyError | Some v \<Rightarrow> Inr v)"
| "py_item _ k = Inl TypeError"

text \<open>\<open>x[i]\<close> with a natural number \<open>i\<close>.\<close>

fun py_index :: "pyval \<Rightarrow> nat \<Rightarrow> py_error + pyval" where
  "py_index (PList xs) i = (if i < length xs then Inr (xs ! i) else Inl IndexError)"
| "py_index (PStr s) i = (if i < length s then Inr (PStr [s ! i]) else Inl IndexError)"
| "py_index (PDict kvs) i = Inl KeyError"
| "py_index _ i = Inl TypeError"

text \<open>Substring test on strings: \<open>xs in ys\<close>.\<close>

fun is_prefix :: "string \<Rightarrow> string \<Rightarrow> bool" where
  "is_prefix [] ys = True"
| "is_prefix (x # xs) [] = False"
| "is_prefix (x # xs) (y # ys) = (x = y \<and> is_prefix xs ys)"

fun is_substring :: "string \<Rightarrow> string \<Rightarrow> bool" where
  "is_substring xs [] = (xs = [])"
| "is_substring xs (y # ys) = (is_prefix xs (y # ys) \<or> is_substring xs ys)"

text \<open>
  \<open>x in y\<close>: substring on strings (a non-string left operand is a TypeError), membership
  by \<open>==\<close> on lists, key membership on dictionaries (an unhashable left operand is a
  TypeError); anything else is not iterable.
\<close>

fun py_in :: "pyval \<Rightarrow> pyval \<Rightarrow> py_error + bool" where
  "py_in (PStr x) (PStr s) = Inr (is_substring x s)"
| "py_in x (PStr s) = Inl TypeError"
| "py_in x (PList ys) = Inr (list_ex (py_eq x) ys)"
| "py_in (PStr k) (PDict kvs) = Inr (map_of kvs k \<noteq> None)"
| "py_in (PList v) (PDict kvs) = Inl TypeError"
| "py_in (PDict v) (PDict kvs) = Inl TypeError"
| "py_in x (PDict kvs) = Inr False"
| "py_in x y = Inl TypeError"

text \<open>Iteration \<open>for x in y\<close>: the elements of a list, the keys of a dictionary, the
  characters of a string.\<close>

fun py_iter :: "pyval \<Rightarrow> py_error + pyval list" where
  "py_iter (PList xs) = Inr xs"
| "py_iter (PDict kvs) = Inr (map (PStr \<circ> fst) kvs)"
| "py_iter (PStr s) = Inr (map (\<lambda>c. PStr [c]) s)"
| "py_iter _ = Inl TypeError"

text \<open>
  What Python does with the characters beyond ASCII in \<open>s.upper()\<close> and \<open>int(s)\<close> is laid
  down in the Unicode tables of the interpreter, not in the program. They are a
  parameter of the model: \<open>unicode_upper\<close> is \<open>s.upper()\<close> and \<open>unicode_int\<close> is \<open>int(s)\<close>
  (\<open>None\<close> for its ValueError) for the strings that are not pure ASCII. On ASCII strings
  both are defined here.
\<close>

record unicode_tables =
  unicode_upper :: "string \<Rightarrow> string"
  unicode_int :: "string \<Rightarrow> int option"

definition is_ascii :: "char \<Rightarrow> bool" where
  "is_ascii c = ((of_char c :: nat) < 128)"

text \<open>\<open>s.upper()\<close>: on an ASCII string the letters a to z become A to Z and every other
  character is kept.\<close>

definition upper_char :: "char \<Rightarrow> char" where
  "upper_char c =
     (let n = (of_char c :: nat) in if 97 \<le> n \<and> n \<le> 122 then char_of (n - 32) else c)"

definition str_upper :: "unicode_tables \<Rightarrow> string \<Rightarrow> string" where
  "str_upper uni s = (if list_all is_ascii s then map upper_char s else unicode_upper uni s)"

fun py_upper :: "unicode_tables \<Rightarrow> pyval \<Rightarrow> py_error + pyval" where
  "py_upper uni (PStr s) = Inr (PStr (str_upper uni s))"
| "py_upper uni _ = Inl AttributeError"

section \<open>Clock Converter\<close>

text \<open>\<open>int(s)\<close> on an ASCII string: the surrounding whitespace (space, tab, line feed,
  vertical tab, form feed, carriage return) is stripped, one sign may lead, and the
  decimal digits may be separated by single underscores.\<close>

definition is_digit :: "char \<Rightarrow> bool" where
  "is_digit c = (48 \<le> (of_char c :: nat) \<and> (of_char c :: nat) \<le> 57)"

definition digit_val :: "char \<Rightarrow> nat" where
  "digit_val c = of_char c - 48"

definition py_isspace :: "char \<Rightarrow> bool" where
  "py_isspace c = ((of_char c :: nat) \<in> {9, 10, 11, 12, 13, 32})"

definition py_strip :: "string \<Rightarrow> string" where
  "py_strip s = rev (dropWhile py_isspace (rev (dropWhile py_isspace s)))"

fun parse_digits :: "nat \<Rightarrow> string \<Rightarrow> nat option" where
  "parse_digits acc [] = Some acc"
| "parse_digits acc [c] = (if is_digit c then Some (10 * acc + digit_val c) else None)"
| "parse_digits acc (c # d # cs) =
     (if is_digit c then parse_digits (10 * acc + digit_val c) (d # cs)
      else if c = CHR ''_'' \<and> is_digit d then parse_digits (10 * acc + digit_val d) cs
      else None)"

definition parse_nat :: "string \<Rightarrow> nat option" where
  "parse_nat s =
     (case s of
        [] \<Rightarrow> None
      | c # cs \<Rightarrow> if is_digit c then parse_digits (digit_val c) cs else None)"

definition ascii_int :: "string \<Rightarrow> int option" where
  "ascii_int s =
     (let t = py_strip s
      in case t of
           [] \<Rightarrow> None
         | c # cs \<Rightarrow>
             if c = CHR ''-'' then map_option (\<lambda>n. - int n) (parse_nat cs)
             else if c = CHR ''+'' then map_option int (parse_nat cs)
             else map_option int (parse_nat t))"

definition py_int :: "unicode_tables \<Rightarrow> string \<Rightarrow> py_error + int" where
  "py_int uni s =
     (case (if list_all is_ascii s then ascii_int s else unicode_int uni s) of
        None \<Rightarrow> Inl ValueError
      | Some n \<Rightarrow> Inr n)"

text \<open>\<open>s.split(sep)\<close> for a one-character separator.\<close>

fun split_on :: "char \<Rightarrow> string \<Rightarrow> string list" where
  "split_on sep [] = [[]]"
| "split_on sep (c # cs) =
     (if c = sep then [] # split_on sep cs
      else (case split_on sep cs of [] \<Rightarrow> [[c]] | p # ps \<Rightarrow> (c # p) # ps))"

text \<open>\<open>clock.split(':')\<close>: only a string has the method.\<close>

fun py_split_colon :: "pyval \<Rightarrow> py_error + string list" where
  "py_split_colon (PStr s) = Inr (split_on CHR '':'' s)"
| "py_split_colon _ = Inl AttributeError"

text \<open>\<open>minutes, seconds = map(int, parts)\<close>: the parts are converted in order, and the
  unpacking needs exactly two of them; every failure is a ValueError.\<close>

definition unpack_minutes_seconds ::
  "unicode_tables \<Rightarrow> string list \<Rightarrow> py_error + (int \<times> int)" where
  "unpack_minutes_seconds uni parts =
     (case parts of
        [a, b] \<Rightarrow> ebind (py_int uni a) (\<lambda>m. ebind (py_int uni b) (\<lambda>s. Inr (m, s)))
      | _ \<Rightarrow> Inl ValueError)"

text \<open>\<open>quarter <= 4\<close> and \<open>4 - quarter\<close>: defined on numbers (a boolean counts as 0 or 1, and
  \<open>nan\<close> compares false), a TypeError otherwise.\<close>

fun py_le_4 :: "pyval \<Rightarrow> py_error + bool" where
  "py_le_4 (PInt n) = Inr (n \<le> 4)"
| "py_le_4 (PBool b) = Inr True"
| "py_le_4 PNaN = Inr False"
| "py_le_4 _ = Inl TypeError"

fun py_4_minus :: "pyval \<Rightarrow> py_error + int" where
  "py_4_minus (PInt n) = Inr (4 - n)"
| "py_4_minus (PBool b) = Inr (4 - (if b then 1 else 0))"
| "py_4_minus _ = Inl TypeError"

definition convert_clock_to_seconds ::
  "unicode_tables \<Rightarrow> pyval \<Rightarrow> pyval \<Rightarrow> py_error + pyval" where
  "convert_clock_to_seconds uni clock quarter =
     (if clock = PNone then Inr PNone
      else
        ebind (py_split_colon clock) (\<lambda>parts.
        ebind (unpack_minutes_seconds uni parts) (\<lambda>(minutes, seconds).
        let quarter_seconds = minutes * 60 + seconds in
        ebind (py_le_4 quarter) (\<lambda>le4.
        ebind (if le4 then py_4_minus quarter else Inr 0) (\<lambda>factor.
        let total_seconds = factor * 15 * 60 in
        Inr (PInt (quarter_seconds + total_seconds)))))))"

section \<open>Rows\<close>

text \<open>
  A row of the play-by-play frame (a pandas Series) is the list of its columns, in the
  order they were assigned. The program reads only columns it has assigned before, so
  the KeyError of a missing label does not arise; \<open>cell\<close> gives \<open>None\<close> for one.
  The frame is the list of its rows, and \<open>DataFrame.apply(f, axis=1)\<close> calls \<open>f\<close> on the
  rows in order. Cells keep the Python values they were built from: pandas' conversion
  of the columns to numpy types (in a column of numbers an absent entry becomes \<open>nan\<close> and
  the integers become floats) is not modelled.
\<close>

type_synonym row = "(string \<times> pyval) list"

definition cell :: "row \<Rightarrow> string \<Rightarrow> pyval" where
  "cell r k = (case map_of r k of None \<Rightarrow> PNone | Some v \<Rightarrow> v)"

definition set_cell :: "string \<Rightarrow> pyval \<Rightarrow> row \<Rightarrow> row" where
  "set_cell k v r = AList.update k v r"

text \<open>\<open>game_df[k] = values\<close>, one value for each row: every list the program assigns
  has one entry for each play, as the frame has.\<close>

definition set_column :: "string \<Rightarrow> pyval list \<Rightarrow> row list \<Rightarrow> row list" where
  "set_column k vs rows = map (\<lambda>(v, r). set_cell k v r) (zip vs rows)"

text \<open>\<open>game_df[k] = game_df.apply(lambda row: f(row), axis=1)\<close> for an \<open>f\<close> that cannot
  raise.\<close>

definition set_computed :: "string \<Rightarrow> (row \<Rightarrow> pyval) \<Rightarrow> row list \<Rightarrow> row list" where
  "set_computed k f rows = map (\<lambda>r. set_cell k (f r) r) rows"

text \<open>Calling \<open>f\<close> on the elements in order; the first exception ends the loop.\<close>

fun emap :: "('a \<Rightarrow> py_error + 'b) \<Rightarrow> 'a list \<Rightarrow> py_error + 'b list" where
  "emap f [] = Inr []"
| "emap f (x # xs) = ebind (f x) (\<lambda>y. ebind (emap f xs) (\<lambda>ys. Inr (y # ys)))"

section \<open>Timeout Tracker\<close>

text \<open>The dictionary \<open>timeout_state\<close> that \<open>timeout_decrementor\<close> mutates; the function
  returns the state it leaves, which is also the pair of values it emits for the row.\<close>

record timeout_state =
  home_timeouts :: int
  away_timeouts :: int

text \<open>Lines 145 to 149: a \<open>Timeout\<close> play with a description takes a timeout from the
  home side when the description contains \<open>location\<close> or \<open>location.upper()\<close>, and from
  the away side otherwise.\<close>

definition timeout_step ::
  "unicode_tables \<Rightarrow> row \<Rightarrow> pyval \<Rightarrow> timeout_state \<Rightarrow> py_error + timeout_state" where
  "timeout_step uni row location df =
     (if py_eq (cell row ''play_type'') (PStr ''Timeout'') \<and> cell row ''description'' \<noteq> PNone
      then
        ebind (py_in location (cell row ''description'')) (\<lambda>verbatim.
        ebind (if verbatim then Inr True
               else ebind (py_upper uni location) (\<lambda>upper.
                    py_in upper (cell row ''description''))) (\<lambda>hit.
        Inr (if hit then df\<lparr>home_timeouts := home_timeouts df - 1\<rparr>
             else df\<lparr>away_timeouts := away_timeouts df - 1\<rparr>)))
      else Inr df)"

text \<open>Lines 150 to 152: the start of the second half.\<close>

definition half_reset_step :: "row \<Rightarrow> timeout_state \<Rightarrow> timeout_state" where
  "half_reset_step row df =
     (if py_eq (cell row ''game_seconds_remaining'') (PInt 1800)
      then df\<lparr>home_timeouts := 3, away_timeouts := 3\<rparr> else df)"

text \<open>Lines 154 to 161: the start of an overtime period. The condition of line 158 is
  \<open>location in d or (location.upper() in d and d is not None)\<close>, read from the left.\<close>

definition overtime_step ::
  "unicode_tables \<Rightarrow> row \<Rightarrow> pyval \<Rightarrow> timeout_state \<Rightarrow> py_error + timeout_state" where
  "overtime_step uni row location df =
     ebind
       (if py_eq (cell row ''game_seconds_remaining'') (PInt 0)
        then py_in (PStr ''OT'') (cell row ''half'') else Inr False) (\<lambda>overtime_start.
     if overtime_start then
       let df = df\<lparr>home_timeouts := 1, away_timeouts := 1\<rparr> in
       if py_eq (cell row ''play_type'') (PStr ''Timeout'') then
         ebind (py_in location (cell row ''description'')) (\<lambda>verbatim.
         ebind (if verbatim then Inr True
                else ebind (py_upper uni location) (\<lambda>upper.
                     ebind (py_in upper (cell row ''description'')) (\<lambda>upper_hit.
                     Inr (upper_hit \<and> cell row ''description'' \<noteq> PNone)))) (\<lambda>hit.
         Inr (if hit then df\<lparr>home_timeouts := home_timeouts df - 1\<rparr>
              else df\<lparr>away_timeouts := away_timeouts df - 1\<rparr>)))
       else Inr df
     else Inr df)"

text \<open>The three statements in the order of the source.\<close>

definition timeout_decrementor ::
  "unicode_tables \<Rightarrow> row \<Rightarrow> timeout_state \<Rightarrow> pyval \<Rightarrow> py_error + timeout_state" where
  "timeout_decrementor uni row df location =
     ebind (timeout_step uni row location df) (\<lambda>df.
     overtime_step uni row location (half_reset_step row df))"

text \<open>\<open>game_df.apply(lambda row: timeout_decrementor(row, timeout_state, h_location), axis=1)\<close>:
  the state is threaded through the rows in play order, and the values emitted for each
  row are collected.\<close>

fun apply_timeouts ::
  "unicode_tables \<Rightarrow> pyval \<Rightarrow> timeout_state \<Rightarrow> row list \<Rightarrow> py_error + timeout_state list" where
  "apply_timeouts uni location st [] = Inr []"
| "apply_timeouts uni location st (r # rs) =
     ebind (timeout_decrementor uni r st location) (\<lambda>st'.
     ebind (apply_timeouts uni location st' rs) (\<lambda>outs. Inr (st' # outs)))"

definition initial_timeouts :: timeout_state where
  "initial_timeouts = \<lparr>home_timeouts = 3, away_timeouts = 3\<rparr>"

section \<open>Roster Resolver\<close>

text \<open>The twelve values \<open>get_home_away\<close> returns. The decorator \<open>with_default_values\<close>
  starts each of them at \<open>None\<close>.\<close>

record home_away =
  home_team :: pyval
  hid :: pyval
  away_team :: pyval
  aid :: pyval
  h_color :: pyval
  a_color :: pyval
  h_rank :: pyval
  a_rank :: pyval
  h_logo :: pyval
  a_logo :: pyval
  h_location :: pyval
  a_location :: pyval

definition with_default_values :: home_away where
  "with_default_values =
     \<lparr>home_team = PNone, hid = PNone, away_team = PNone, aid = PNone,
      h_color = PNone, a_color = PNone, h_rank = PNone, a_rank = PNone,
      h_logo = PNone, a_logo = PNone, h_location = PNone, a_location = PNone\<rparr>"

text \<open>A block of assignments inside a \<open>try\<close>: they run in order, and the first exception
  leaves the variables as the earlier assignments set them.\<close>

fun run_stmts :: "('s \<Rightarrow> py_error + 's) list \<Rightarrow> 's \<Rightarrow> 's \<times> py_error option" where
  "run_stmts [] s = (s, None)"
| "run_stmts (f # fs) s = (case f s of Inl e \<Rightarrow> (s, Some e) | Inr s' \<Rightarrow> run_stmts fs s')"

definition team_item :: "pyval \<Rightarrow> string \<Rightarrow> py_error + pyval" where
  "team_item c k = ebind (py_get c ''team'') (\<lambda>t. py_item t k)"

definition team_get :: "pyval \<Rightarrow> string \<Rightarrow> py_error + pyval" where
  "team_get c k = ebind (py_get c ''team'') (\<lambda>t. py_get t k)"

definition rank_of :: "pyval \<Rightarrow> py_error + pyval" where
  "rank_of c = ebind (py_in (PStr ''rank'') c) (\<lambda>b. if b then py_item c ''rank'' else Inr PNaN)"

definition logo_of :: "pyval \<Rightarrow> py_error + pyval" where
  "logo_of c =
     ebind (team_get c ''logos'') (\<lambda>logos.
     ebind (py_index logos 0) (\<lambda>logo. py_get logo ''href''))"

text \<open>The two branches of the loop body, for the competitor \<open>c = _json[i]\<close>.\<close>

definition assign_home :: "pyval \<Rightarrow> (home_away \<Rightarrow> py_error + home_away) list" where
  "assign_home c =
     [\<lambda>s. ebind (team_item c ''abbreviation'') (\<lambda>v. Inr (s\<lparr>home_team := v\<rparr>)),
      \<lambda>s. ebind (team_item c ''id'') (\<lambda>v. Inr (s\<lparr>hid := v\<rparr>)),
      \<lambda>s. ebind (team_get c ''color'') (\<lambda>v. Inr (s\<lparr>h_color := v\<rparr>)),
      \<lambda>s. ebind (rank_of c) (\<lambda>v. Inr (s\<lparr>h_rank := v\<rparr>)),
      \<lambda>s. ebind (logo_of c) (\<lambda>v. Inr (s\<lparr>h_logo := v\<rparr>)),
      \<lambda>s. ebind (team_item c ''location'') (\<lambda>v. Inr (s\<lparr>h_location := v\<rparr>))]"

definition assign_away :: "pyval \<Rightarrow> (home_away \<Rightarrow> py_error + home_away) list" where
  "assign_away c =
     [\<lambda>s. ebind (team_item c ''abbreviation'') (\<lambda>v. Inr (s\<lparr>away_team := v\<rparr>)),
      \<lambda>s. ebind (team_item c ''id'') (\<lambda>v. Inr (s\<lparr>aid := v\<rparr>)),
      \<lambda>s. ebind (team_get c ''color'') (\<lambda>v. Inr (s\<lparr>a_color := v\<rparr>)),
      \<lambda>s. ebind (rank_of c) (\<lambda>v. Inr (s\<lparr>a_rank := v\<rparr>)),
      \<lambda>s. ebind (logo_of c) (\<lambda>v. Inr (s\<lparr>a_logo := v\<rparr>)),
      \<lambda>s. ebind (team_item c ''location'') (\<lambda>v. Inr (s\<lparr>a_location := v\<rparr>))]"

text \<open>\<open>_json[i].get('homeAway') == 'home'\<close>, with the competitor it was read from.\<close>

definition is_home_entry :: "pyval \<Rightarrow> nat \<Rightarrow> py_error + (pyval \<times> bool)" where
  "is_home_entry json i =
     ebind (py_index json i) (\<lambda>c.
     ebind (py_get c ''homeAway'') (\<lambda>tag. Inr (c, py_eq tag (PStr ''home''))))"

definition home_away_entry :: "pyval \<Rightarrow> nat \<Rightarrow> home_away \<Rightarrow> home_away \<times> py_error option" where
  "home_away_entry json i s =
     (case is_home_entry json i of
        Inl e \<Rightarrow> (s, Some e)
      | Inr (c, is_home) \<Rightarrow> run_stmts (if is_home then assign_home c else assign_away c) s)"

text \<open>The \<open>try\<close> block of \<open>get_home_away\<close>: the loop over \<open>range(2)\<close>, with the exception
  that ended it, if any. The handler prints the exception and the function returns the
  variables as they stand.\<close>

definition get_home_away_try :: "pyval \<Rightarrow> home_away \<times> py_error option" where
  "get_home_away_try json =
     (case home_away_entry json 0 with_default_values of
        (s, Some e) \<Rightarrow> (s, Some e)
      | (s, None) \<Rightarrow> home_away_entry json 1 s)"

definition get_home_away :: "pyval \<Rightarrow> home_away" where
  "get_home_away json = fst (get_home_away_try json)"

section \<open>Play Record Builder\<close>

text \<open>The values \<open>get_play_by_play\<close> appends for one play, one to each of its lists
  (\<open>play_ids\<close>, \<open>home_score\<close>, \<open>away_score\<close>, \<open>desc\<close>, \<open>play_type\<close>, \<open>quarter\<close>, \<open>clock\<close>,
  \<open>down\<close>, \<open>ydstogo\<close>, \<open>yardline_100\<close>, \<open>posteam\<close>, \<open>ball_location\<close>, \<open>yards_gained\<close>). The
  lists grow together, so they are one list of these records.\<close>

record play_fields =
  pl_id :: pyval
  pl_home_score :: pyval
  pl_away_score :: pyval
  pl_desc :: pyval
  pl_play_type :: pyval
  pl_quarter :: pyval
  pl_clock :: pyval
  pl_down :: pyval
  pl_ydstogo :: pyval
  pl_yardline_100 :: pyval
  pl_posteam :: pyval
  pl_ball_location :: pyval
  pl_yards_gained :: pyval

text \<open>\<open>play[k].get(j)\<close>.\<close>

definition item_get :: "pyval \<Rightarrow> string \<Rightarrow> string \<Rightarrow> py_error + pyval" where
  "item_get play k j = ebind (py_item play k) (\<lambda>x. py_get x j)"

definition extract_play :: "pyval \<Rightarrow> py_error + play_fields" where
  "extract_play play =
     ebind (py_item play ''id'') (\<lambda>v_id.
     ebind (py_item play ''homeScore'') (\<lambda>v_home_score.
     ebind (py_item play ''awayScore'') (\<lambda>v_away_score.
     ebind (ebind (py_in (PStr ''text'') play) (\<lambda>b.
              if b then py_item play ''text'' else Inr (PStr ''N/A''))) (\<lambda>v_desc.
     ebind (ebind (py_get play ''type'') (\<lambda>t.
              if t \<noteq> PNone then py_get t ''text'' else Inr (PStr ''N/A''))) (\<lambda>v_play_type.
     ebind (item_get play ''period'' ''number'') (\<lambda>v_quarter.
     ebind (item_get play ''clock'' ''displayValue'') (\<lambda>v_clock.
     ebind (item_get play ''start'' ''down'') (\<lambda>v_down.
     ebind (item_get play ''start'' ''distance'') (\<lambda>v_ydstogo.
     ebind (item_get play ''start'' ''yardsToEndzone'') (\<lambda>v_yardline_100.
     ebind (ebind (item_get play ''start'' ''team'') (\<lambda>t. py_get t ''id'')) (\<lambda>v_posteam.
     ebind (item_get play ''start'' ''possessionText'') (\<lambda>v_ball_location.
     ebind (py_item play ''statYardage'') (\<lambda>v_yards_gained.
     Inr \<lparr>pl_id = v_id, pl_home_score = v_home_score, pl_away_score = v_away_score,
          pl_desc = v_desc, pl_play_type = v_play_type, pl_quarter = v_quarter,
          pl_clock = v_clock, pl_down = v_down, pl_ydstogo = v_ydstogo,
          pl_yardline_100 = v_yardline_100, pl_posteam = v_posteam,
          pl_ball_location = v_ball_location,
          pl_yards_gained = v_yards_gained\<rparr>)))))))))))))"

text \<open>The inner loop, \<open>for play in drive.get('plays')\<close>, and the outer one,
  \<open>for drive in json.get('drives').get('previous')\<close>.\<close>

definition extract_drive :: "pyval \<Rightarrow> py_error + play_fields list" where
  "extract_drive drive =
     ebind (py_get drive ''plays'') (\<lambda>plays.
     ebind (py_iter plays) (emap extract_play))"

definition extract_plays :: "pyval \<Rightarrow> py_error + play_fields list" where
  "extract_plays json =
     ebind (py_get json ''drives'') (\<lambda>drives.
     ebind (py_get drives ''previous'') (\<lambda>previous.
     ebind (py_iter previous) (\<lambda>ds.
     ebind (emap extract_drive ds) (\<lambda>pss. Inr (concat pss)))))"

text \<open>The game-level values read from the header after the loops.\<close>

record game_header =
  game_id :: pyval
  year :: pyval
  season_type :: pyval
  is_neutral :: pyval
  is_conference_play :: pyval
  week :: pyval

definition header_get :: "pyval \<Rightarrow> string \<Rightarrow> py_error + pyval" where
  "header_get json k = ebind (py_get json ''header'') (\<lambda>h. py_get h k)"

definition first_competition :: "pyval \<Rightarrow> py_error + pyval" where
  "first_competition json = ebind (header_get json ''competitions'') (\<lambda>cs. py_index cs 0)"

definition read_header :: "pyval \<Rightarrow> py_error + game_header" where
  "read_header json =
     ebind (header_get json ''id'') (\<lambda>v_game_id.
     ebind (ebind (header_get json ''season'') (\<lambda>s. py_get s ''year'')) (\<lambda>v_year.
     ebind (ebind (header_get json ''season'') (\<lambda>s. py_get s ''type'')) (\<lambda>v_season_type.
     ebind (ebind (first_competition json) (\<lambda>c. py_item c ''neutralSite'')) (\<lambda>v_is_neutral.
     ebind (ebind (first_competition json) (\<lambda>c. py_item c ''conferenceCompetition''))
       (\<lambda>v_is_conference_play.
     ebind (header_get json ''week'') (\<lambda>v_week.
     Inr \<lparr>game_id = v_game_id, year = v_year, season_type = v_season_type,
          is_neutral = v_is_neutral, is_conference_play = v_is_conference_play,
          week = v_week\<rparr>))))))"

text \<open>The first \<open>try\<close> of \<open>get_play_by_play\<close>: the competitors are looked up in the header
  and resolved. An AttributeError of the lookup is caught and printed, which leaves the
  twelve local variables unbound (\<open>None\<close> here); any other exception leaves the function.\<close>

definition header_competitors :: "pyval \<Rightarrow> py_error + pyval" where
  "header_competitors json = ebind (first_competition json) (\<lambda>c. py_get c ''competitors'')"

definition resolve_teams :: "pyval \<Rightarrow> py_error + home_away option" where
  "resolve_teams json =
     (case header_competitors json of
        Inl e \<Rightarrow> if e = AttributeError then Inr None else Inl e
      | Inr competitors \<Rightarrow> Inr (Some (get_home_away competitors)))"

text \<open>\<open>str(x)\<close> inside the f-string \<open>f'OT{x}'\<close>. A period number is a number or absent; for a
  list or a dictionary the text of the elements is left out.\<close>

fun show_nat :: "nat \<Rightarrow> string" where
  "show_nat n =
     (if n < 10 then [char_of (48 + n)] else show_nat (n div 10) @ [char_of (48 + n mod 10)])"

declare show_nat.simps [simp del]

definition show_int :: "int \<Rightarrow> string" where
  "show_int i = (if i < 0 then CHR ''-'' # show_nat (nat (- i)) else show_nat (nat i))"

fun py_format :: "pyval \<Rightarrow> string" where
  "py_format PNone = ''None''"
| "py_format (PBool b) = (if b then ''True'' else ''False'')"
| "py_format (PInt i) = show_int i"
| "py_format PNaN = ''nan''"
| "py_format (PStr s) = s"
| "py_format (PList xs) = ''[]''"
| "py_format (PDict kvs) = ''{}''"

definition half_label :: "pyval \<Rightarrow> pyval" where
  "half_label x =
     (if py_eq x (PInt 1) \<or> py_eq x (PInt 2) then PStr ''Half1''
      else if py_eq x (PInt 3) \<or> py_eq x (PInt 4) then PStr ''Half2''
      else PStr (''OT'' @ py_format x))"

text \<open>Column assignments: the first one creates the rows of the empty frame; a scalar is
  repeated for every row.\<close>

definition new_frame :: "string \<Rightarrow> pyval list \<Rightarrow> row list" where
  "new_frame k vs = map (\<lambda>v. [(k, v)]) vs"

definition set_scalar :: "string \<Rightarrow> pyval \<Rightarrow> row list \<Rightarrow> row list" where
  "set_scalar k v rows = map (set_cell k v) rows"

text \<open>Lines 243 to 259: the columns from \<open>game_id\<close> to \<open>clock\<close>. The local variables
  \<open>home_id\<close>, \<open>away_id\<close>, ... are the fields of \<open>t\<close>.\<close>

definition posteam_type_of :: "row \<Rightarrow> pyval" where
  "posteam_type_of row =
     (if py_eq (cell row ''posteam'') (cell row ''home_id'') then PStr ''home''
      else if py_eq (cell row ''posteam'') (cell row ''away_id'') then PStr ''away''
      else PStr ''neutral'')"

definition defteam_of :: "pyval \<Rightarrow> pyval \<Rightarrow> row \<Rightarrow> pyval" where
  "defteam_of home_id away_id row =
     (if py_eq (cell row ''posteam'') (cell row ''home_id'') then away_id else home_id)"

definition frame_ids :: "game_header \<Rightarrow> play_fields list \<Rightarrow> row list" where
  "frame_ids g plays =
     set_column ''play_id'' (map pl_id plays)
       (new_frame ''game_id'' (replicate (length plays) (game_id g)))"

definition frame_to_clock :: "game_header \<Rightarrow> home_away \<Rightarrow> play_fields list \<Rightarrow> row list \<Rightarrow> row list" where
  "frame_to_clock g t plays game_df =
     (let game_df = set_scalar ''home_id'' (hid t) game_df;
          game_df = set_scalar ''home_team'' (home_team t) game_df;
          game_df = set_scalar ''home_rank'' (h_rank t) game_df;
          game_df = set_scalar ''away_id'' (aid t) game_df;
          game_df = set_scalar ''away_team'' (away_team t) game_df;
          game_df = set_scalar ''away_rank'' (a_rank t) game_df;
          game_df = set_scalar ''season_type''
            (if py_eq (season_type g) (PInt 2) then PStr ''regular'' else PStr ''bowl'') game_df;
          game_df = set_scalar ''week'' (week g) game_df;
          game_df = set_column ''posteam'' (map pl_posteam plays) game_df;
          game_df = set_computed ''posteam_type'' posteam_type_of game_df;
          game_df = set_computed ''defteam'' (defteam_of (hid t) (aid t)) game_df;
          game_df = set_column ''yardline_100'' (map pl_yardline_100 plays) game_df;
          game_df = set_scalar ''year'' (year g) game_df;
          game_df = set_column ''quarter'' (map pl_quarter plays) game_df;
          game_df = set_column ''clock'' (map pl_clock plays) game_df
      in game_df)"

text \<open>Lines 260 to 267, once the clock column has been converted without an exception.\<close>

definition frame_to_description :: "play_fields list \<Rightarrow> pyval list \<Rightarrow> row list \<Rightarrow> row list" where
  "frame_to_description plays seconds game_df =
     (let game_df = set_column ''game_seconds_remaining'' seconds game_df;
          game_df = set_computed ''half'' (\<lambda>row. half_label (cell row ''quarter'')) game_df;
          game_df = set_column ''down''
            (map (\<lambda>down. if \<not> py_eq down (PInt 0) then down else PNaN) (map pl_down plays)) game_df;
          game_df = set_column ''ydstogo'' (map pl_ydstogo plays) game_df;
          game_df = set_column ''play_type'' (map pl_play_type plays) game_df;
          game_df = set_column ''yds_gained'' (map pl_yards_gained plays) game_df;
          game_df = set_column ''description'' (map pl_desc plays) game_df
      in game_df)"

text \<open>Lines 270 to 272, once the timeouts have been tracked without an exception.\<close>

definition frame_timeouts :: "timeout_state list \<Rightarrow> row list \<Rightarrow> row list" where
  "frame_timeouts outs game_df =
     (let game_df = set_column ''home_timeouts'' (map (\<lambda>st. PInt (home_timeouts st)) outs) game_df;
          game_df = set_column ''away_timeouts'' (map (\<lambda>st. PInt (away_timeouts st)) outs) game_df;
          game_df = set_computed ''posteam_tos'' (\<lambda>row.
            if py_eq (cell row ''posteam'') (cell row ''home_id'')
            then cell row ''home_timeouts'' else cell row ''away_timeouts'') game_df;
          game_df = set_computed ''defteam_tos'' (\<lambda>row.
            if py_eq (cell row ''defteam'') (cell row ''home_id'')
            then cell row ''home_timeouts'' else cell row ''away_timeouts'') game_df
      in game_df)"

text \<open>The second \<open>try\<close> block: the frame as it stands when the block ends, and the
  exception that ended it, if any. \<open>teams\<close> is what the first \<open>try\<close> left in the local
  variables; reading one that is unbound raises UnboundLocalError. On a frame without
  rows the \<open>apply\<close> of line 254 returns a frame, and assigning a frame of several columns
  to the one column \<open>posteam_type\<close> raises ValueError.\<close>

definition build_frame ::
  "unicode_tables \<Rightarrow> pyval \<Rightarrow> home_away option \<Rightarrow> row list \<times> py_error option" where
  "build_frame uni json teams =
     (case extract_plays json of
        Inl e \<Rightarrow> ([], Some e)
      | Inr plays \<Rightarrow>
     (case read_header json of
        Inl e \<Rightarrow> ([], Some e)
      | Inr g \<Rightarrow>
     (case teams of
        None \<Rightarrow> (frame_ids g plays, Some UnboundLocalError)
      | Some t \<Rightarrow>
     (if plays = [] then (frame_ids g plays, Some ValueError)
      else
     (let game_df = frame_to_clock g t plays (frame_ids g plays) in
      case emap (\<lambda>row. convert_clock_to_seconds uni (cell row ''clock'') (cell row ''quarter''))
             game_df of
        Inl e \<Rightarrow> (game_df, Some e)
      | Inr seconds \<Rightarrow>
     (let game_df = frame_to_description plays seconds game_df in
      case apply_timeouts uni (h_location t) initial_timeouts game_df of
        Inl e \<Rightarrow> (game_df, Some e)
      | Inr outs \<Rightarrow> (frame_timeouts outs game_df, None)))))))"

text \<open>\<open>get_play_by_play\<close>, from the decoded response on: the handler of the second \<open>try\<close>
  catches AttributeError only, and the frame is returned as it stands.\<close>

definition get_play_by_play :: "unicode_tables \<Rightarrow> pyval \<Rightarrow> py_error + row list" where
  "get_play_by_play uni json =
     ebind (resolve_teams json) (\<lambda>teams.
     case build_frame uni json teams of
       (game_df, None) \<Rightarrow> Inr game_df
     | (game_df, Some e) \<Rightarrow> if e = AttributeError then Inr game_df else Inl e)"

section \<open>Batch cleanup\<close>

text \<open>A row of a season file: its \<open>play_id\<close> and the other columns. The files are a store
  from path to rows; \<open>csv_files\<close> is the list \<open>glob.glob\<close> returned. \<open>Series.apply\<close> calls
  \<open>positive\<close> on each \<open>play_id\<close> as a Python integer.\<close>

record 'a csv_row =
  play_id :: int
  other_columns :: 'a

definition positive :: "int \<Rightarrow> int" where
  "positive column = abs column"

definition apply_positive :: "'a csv_row list \<Rightarrow> 'a csv_row list" where
  "apply_positive rows = map (\<lambda>r. r\<lparr>play_id := positive (play_id r)\<rparr>) rows"

fun clean_loop ::
  "string list \<Rightarrow> (string \<rightharpoonup> 'a csv_row list) \<Rightarrow> 'a csv_row list \<Rightarrow>
   py_error + ((string \<rightharpoonup> 'a csv_row list) \<times> 'a csv_row list)" where
  "clean_loop [] files combined_data = Inr (files, combined_data)"
| "clean_loop (file # csv_files) files combined_data =
     (case files file of
        None \<Rightarrow> Inl FileNotFoundError
      | Some rows \<Rightarrow>
          (let current = apply_positive rows
           in clean_loop csv_files (files(file \<mapsto> current)) (combined_data @ current)))"

definition clean :: "string list \<Rightarrow> (string \<rightharpoonup> 'a csv_row list) \<Rightarrow> py_error + (string \<rightharpoonup> 'a csv_row list)" where
  "clean csv_files files =
     ebind (clean_loop csv_files files []) (\<lambda>(files', combined_data).
     Inr (files'(''years/combined.csv'' \<mapsto> combined_data)))"

section \<open>Properties\<close>

text \<open>A clock field of the form \<open>MM:SS\<close> is a non-empty run of decimal digits, and stands
  for the number it spells.\<close>

definition all_digits :: "string \<Rightarrow> bool" where
  "all_digits s = (s \<noteq> [] \<and> list_all is_digit s)"

definition digits_value :: "string \<Rightarrow> int" where
  "digits_value s = int (foldl (\<lambda>a c. 10 * a + digit_val c) 0 s)"

text \<open>The two reset boundaries of the tracker, as its conditions read them from a row,
  and the bound in force after each row of a sequence: 3 at the start and after a
  half-time reset, 1 after an overtime reset.\<close>

definition is_half_reset :: "row \<Rightarrow> bool" where
  "is_half_reset row = py_eq (cell row ''game_seconds_remaining'') (PInt 1800)"

definition is_overtime_reset :: "row \<Rightarrow> bool" where
  "is_overtime_reset row =
     (py_eq (cell row ''game_seconds_remaining'') (PInt 0) \<and>
      py_in (PStr ''OT'') (cell row ''half'') = Inr True)"

fun spec_caps :: "int \<Rightarrow> row list \<Rightarrow> int list" where
  "spec_caps c [] = []"
| "spec_caps c (r # rs) =
     (let c' = (if is_overtime_reset r then 1 else if is_half_reset r then 3 else c)
      in c' # spec_caps c' rs)"

definition within_cap :: "timeout_state \<Rightarrow> int \<Rightarrow> bool" where
  "within_cap st c = (home_timeouts st \<le> c \<and> away_timeouts st \<le> c)"

text \<open>Whether competitor \<open>i\<close> is read as the home side, and a result whose home (away)
  values are all still \<open>None\<close>.\<close>

definition carries_home_tag :: "pyval \<Rightarrow> nat \<Rightarrow> bool" where
  "carries_home_tag json i = (case is_home_entry json i of Inl e \<Rightarrow> False | Inr (c, b) \<Rightarrow> b)"

definition home_absent :: "home_away \<Rightarrow> bool" where
  "home_absent s =
     (home_team s = PNone \<and> hid s = PNone \<and> h_color s = PNone \<and>
      h_rank s = PNone \<and> h_logo s = PNone \<and> h_location s = PNone)"

definition away_absent :: "home_away \<Rightarrow> bool" where
  "away_absent s =
     (away_team s = PNone \<and> aid s = PNone \<and> a_color s = PNone \<and>
      a_rank s = PNone \<and> a_logo s = PNone \<and> a_location s = PNone)"

text \<open>The identifiers a built row carries for the resolved teams \<open>t\<close>.\<close>

definition defteam_rule :: "home_away \<Rightarrow> row \<Rightarrow> bool" where
  "defteam_rule t r =
     (cell r ''home_id'' = hid t \<and> cell r ''away_id'' = aid t \<and>
      cell r ''defteam'' = (if py_eq (cell r ''posteam'') (hid t) then aid t else hid t))"

text \<open>A payload with no drives entry at all: \<open>json.get('drives')\<close> is \<open>None\<close>, or \<open>json\<close>
  is not a dictionary.\<close>

definition lacks_drives :: "pyval \<Rightarrow> bool" where
  "lacks_drives json =
     (py_get json ''drives'' = Inl AttributeError \<or> py_get json ''drives'' = Inr PNone)"

section \<open>Sample payloads\<close>

definition sample_team :: "string \<Rightarrow> string \<Rightarrow> string \<Rightarrow> pyval" where
  "sample_team abbreviation ident location =
     PDict [(''abbreviation'', PStr abbreviation), (''id'', PStr ident),
            (''color'', PStr ''9e1b32''),
            (''logos'', PList [PDict [(''href'', PStr ''http://logo'')]]),
            (''location'', PStr location)]"

definition tagged :: "string \<Rightarrow> pyval \<Rightarrow> pyval" where
  "tagged tag team = PDict [(''homeAway'', PStr tag), (''team'', team)]"

definition untagged :: "pyval \<Rightarrow> pyval" where
  "untagged team = PDict [(''team'', team)]"

definition sample_play :: "string \<Rightarrow> pyval \<Rightarrow> string \<Rightarrow> int \<Rightarrow> string \<Rightarrow> string \<Rightarrow> pyval" where
  "sample_play ident text type_text period display posteam =
     PDict [(''id'', PStr ident), (''homeScore'', PInt 0), (''awayScore'', PInt 0),
            (''text'', text), (''type'', PDict [(''text'', PStr type_text)]),
            (''period'', PDict [(''number'', PInt period)]),
            (''clock'', PDict [(''displayValue'', PStr display)]),
            (''start'', PDict [(''down'', PInt 1), (''distance'', PInt 10),
                              (''yardsToEndzone'', PInt 75),
                              (''team'', PDict [(''id'', PStr posteam)]),
                              (''possessionText'', PStr ''ALA 25'')]),
            (''statYardage'', PInt 3)]"

definition sample_header :: "pyval list \<Rightarrow> pyval" where
  "sample_header competitors =
     PDict [(''id'', PStr ''401''),
            (''season'', PDict [(''year'', PInt 2023), (''type'', PInt 2)]),
            (''week'', PInt 1),
            (''competitions'',
               PList [PDict [(''neutralSite'', PBool False),
                             (''conferenceCompetition'', PBool True),
                             (''competitors'', PList competitors)]])]"

definition sample_game :: "pyval list \<Rightarrow> pyval list \<Rightarrow> pyval" where
  "sample_game competitors plays =
     PDict [(''header'', sample_header competitors),
            (''drives'', PDict [(''previous'', PList [PDict [(''plays'', PList plays)]])])]"

definition alabama :: pyval where
  "alabama = sample_team ''ALA'' ''333'' ''Alabama''"

definition auburn :: pyval where
  "auburn = sample_team ''AUB'' ''2'' ''Auburn''"

definition sample_row :: "string \<Rightarrow> pyval \<Rightarrow> int \<Rightarrow> string \<Rightarrow> row" where
  "sample_row type_text text seconds half =
     [(''play_type'', PStr type_text), (''description'', text),
      (''game_seconds_remaining'', PInt seconds), (''half'', PStr half)]"

text \<open>A game whose competitors carry no \<open>homeAway\<close> tag, with one play, and the frame
  built for it; a tagged game with a play of the home side and one of a third team, and
  its frame; a payload with a header and no drives entry, and one whose drives entry is an
  empty object.\<close>

definition untagged_game :: pyval where
  "untagged_game =
     sample_game [untagged alabama, untagged auburn]
       [sample_play ''1'' (PStr ''Run for 3 yards'') ''Rush'' 1 ''10:00'' ''333'']"

definition untagged_game_rows :: "row list" where
  "untagged_game_rows =
     [[(''game_id'', PStr ''401''), (''play_id'', PStr ''1''), (''home_id'', PNone),
       (''home_team'', PNone), (''home_rank'', PNone), (''away_id'', PStr ''2''),
       (''away_team'', PStr ''AUB''), (''away_rank'', PNaN), (''season_type'', PStr ''regular''),
       (''week'', PInt 1), (''posteam'', PStr ''333''), (''posteam_type'', PStr ''neutral''),
       (''defteam'', PNone), (''yardline_100'', PInt 75), (''year'', PInt 2023),
       (''quarter'', PInt 1), (''clock'', PStr ''10:00''),
       (''game_seconds_remaining'', PInt 3300), (''half'', PStr ''Half1''), (''down'', PInt 1),
       (''ydstogo'', PInt 10), (''play_type'', PStr ''Rush''), (''yds_gained'', PInt 3),
       (''description'', PStr ''Run for 3 yards''), (''home_timeouts'', PInt 3),
       (''away_timeouts'', PInt 3), (''posteam_tos'', PInt 3), (''defteam_tos'', PInt 3)]]"

definition tagged_game :: pyval where
  "tagged_game =
     sample_game [tagged ''home'' alabama, tagged ''away'' auburn]
       [sample_play ''1'' (PStr ''Run for 3 yards'') ''Rush'' 1 ''10:00'' ''333'',
        sample_play ''2'' (PStr ''Kickoff'') ''Kickoff'' 3 ''15:00'' ''999'']"

definition tagged_game_rows :: "row list" where
  "tagged_game_rows =
     [[(''game_id'', PStr ''401''), (''play_id'', PStr ''1''), (''home_id'', PStr ''333''),
       (''home_team'', PStr ''ALA''), (''home_rank'', PNaN), (''away_id'', PStr ''2''),
       (''away_team'', PStr ''AUB''), (''away_rank'', PNaN), (''season_type'', PStr ''regular''),
       (''week'', PInt 1), (''posteam'', PStr ''333''), (''posteam_type'', PStr ''home''),
       (''defteam'', PStr ''2''), (''yardline_100'', PInt 75), (''year'', PInt 2023),
       (''quarter'', PInt 1), (''clock'', PStr ''10:00''),
       (''game_seconds_remaining'', PInt 3300), (''half'', PStr ''Half1''), (''down'', PInt 1),
       (''ydstogo'', PInt 10), (''play_type'', PStr ''Rush''), (''yds_gained'', PInt 3),
       (''description'', PStr ''Run for 3 yards''), (''home_timeouts'', PInt 3),
       (''away_timeouts'', PInt 3), (''posteam_tos'', PInt 3), (''defteam_tos'', PInt 3)],
      [(''game_id'', PStr ''401''), (''play_id'', PStr ''2''), (''home_id'', PStr ''333''),
       (''home_team'', PStr ''ALA''), (''home_rank'', PNaN), (''away_id'', PStr ''2''),
       (''away_team'', PStr ''AUB''), (''away_rank'', PNaN), (''season_type'', PStr ''regular''),
       (''week'', PInt 1), (''posteam'', PStr ''999''), (''posteam_type'', PStr ''neutral''),
       (''defteam'', PStr ''333''), (''yardline_100'', PInt 75), (''year'', PInt 2023),
       (''quarter'', PInt 3), (''clock'', PStr ''15:00''),
       (''game_seconds_remaining'', PInt 1800), (''half'', PStr ''Half2''), (''down'', PInt 1),
       (''ydstogo'', PInt 10), (''play_type'', PStr ''Kickoff''), (''yds_gained'', PInt 3),
       (''description'', PStr ''Kickoff''), (''home_timeouts'', PInt 3),
       (''away_timeouts'', PInt 3), (''posteam_tos'', PInt 3), (''defteam_tos'', PInt 3)]]"

definition game_without_drives :: pyval where
  "game_without_drives =
     PDict [(''header'', sample_header [tagged ''home'' alabama, tagged ''away'' auburn])]"

definition game_with_empty_drives :: pyval where
  "game_with_empty_drives =
     PDict [(''header'', sample_header [tagged ''home'' alabama, tagged ''away'' auburn]),
            (''drives'', PDict [])]"


section \<open>The error monad\<close>

lemma ebind_Inl [simp]: "ebind (Inl e) f = Inl e"
  by (simp add: ebind_def)

lemma ebind_Inr [simp]: "ebind (Inr x) f = f x"
  by (simp add: ebind_def)

lemma ebind_Inr_iff: "ebind m f = Inr y \<longleftrightarrow> (\<exists>x. m = Inr x \<and> f x = Inr y)"
  by (cases m) auto

lemma py_eq_1800: "py_eq x (PInt 1800) = (x = PInt 1800)"
  by (cases x) auto

lemma py_eq_str: "py_eq x (PStr s) = (x = PStr s)"
  by (cases x) auto

section \<open>Clock Converter: results\<close>

lemma parse_digits_all:
  "list_all is_digit s \<Longrightarrow>
   parse_digits acc s = Some (foldl (\<lambda>a c. 10 * a + digit_val c) acc s)"
  by (induction acc s rule: parse_digits.induct) auto

lemma parse_nat_all: "all_digits s \<Longrightarrow> map_option int (parse_nat s) = Some (digits_value s)"
  by (cases s) (auto simp: all_digits_def parse_nat_def digits_value_def parse_digits_all)

lemma digit_not_space: "is_digit c \<Longrightarrow> \<not> py_isspace c"
  by (auto simp: is_digit_def py_isspace_def)

lemma digit_not_sign:
  "is_digit c \<Longrightarrow> c \<noteq> CHR ''-'' \<and> c \<noteq> CHR ''+'' \<and> c \<noteq> CHR '':''"
  by (auto simp: is_digit_def)

lemma strip_digits: "all_digits s \<Longrightarrow> py_strip s = s"
proof -
  assume a: "all_digits s"
  then have lead: "dropWhile py_isspace s = s"
    by (cases s) (auto simp: all_digits_def digit_not_space)
  from a have "rev s \<noteq> []" "list_all is_digit (rev s)"
    by (auto simp: all_digits_def list_all_iff)
  then have trail: "dropWhile py_isspace (rev s) = rev s"
    by (cases "rev s") (auto simp: digit_not_space)
  show ?thesis by (simp add: py_strip_def lead trail)
qed

lemma digits_ascii: "all_digits s \<Longrightarrow> list_all is_ascii s"
  by (auto simp: all_digits_def list_all_iff is_digit_def is_ascii_def)

lemma ascii_int_digits: "all_digits s \<Longrightarrow> ascii_int s = Some (digits_value s)"
proof -
  assume a: "all_digits s"
  then obtain c cs where s: "s = c # cs" and c: "is_digit c"
    by (cases s) (auto simp: all_digits_def)
  from parse_nat_all[OF a] obtain n where n: "parse_nat s = Some n" "int n = digits_value s"
    by auto
  show ?thesis
    using digit_not_sign[OF c] n
    by (simp add: ascii_int_def strip_digits[OF a] s[symmetric]) (simp add: s)
qed

lemma py_int_digits: "all_digits s \<Longrightarrow> py_int uni s = Inr (digits_value s)"
  by (simp add: py_int_def digits_ascii ascii_int_digits)

lemma py_int_error: "py_int uni s = Inl e \<Longrightarrow> e = ValueError"
  by (auto simp: py_int_def split: option.splits)

lemma split_no_sep: "sep \<notin> set s \<Longrightarrow> split_on sep s = [s]"
  by (induction s) auto

lemma split_one_sep:
  "sep \<notin> set a \<Longrightarrow> sep \<notin> set b \<Longrightarrow> split_on sep (a @ sep # b) = [a, b]"
  by (induction a) (auto simp: split_no_sep)

lemma digits_no_colon: "all_digits s \<Longrightarrow> CHR '':'' \<notin> set s"
  using digit_not_sign by (auto simp: all_digits_def list_all_iff)

lemma clock_of_digits:
  "all_digits mm \<Longrightarrow> all_digits ss \<Longrightarrow>
   convert_clock_to_seconds uni (PStr (mm @ '':'' @ ss)) (PInt q) =
     Inr (PInt (digits_value mm * 60 + digits_value ss +
                (if q \<le> 4 then 15 * 60 * (4 - q) else 0)))"
  by (simp add: convert_clock_to_seconds_def unpack_minutes_seconds_def
      split_one_sep digits_no_colon py_int_digits)

text \<open>
  C5. For every clock string made of two colon-separated runs of digits and every
  quarter number \<open>q\<close>, the converter returns minutes * 60 + seconds, plus
  15 * 60 * (4 - q) when \<open>q \<le> 4\<close> and plus 0 otherwise: 3600 for 15:00 in quarter 1, 0 for
  00:00 in quarter 4, 600 for 10:00 in period 5. For an absent clock it returns absent.
\<close>

theorem clock_converter_formula:
  "(all_digits mm \<and> all_digits ss \<longrightarrow>
      convert_clock_to_seconds uni (PStr (mm @ '':'' @ ss)) (PInt q) =
        Inr (PInt (digits_value mm * 60 + digits_value ss +
                   (if q \<le> 4 then 15 * 60 * (4 - q) else 0)))) \<and>
   convert_clock_to_seconds uni (PStr ''15:00'') (PInt 1) = Inr (PInt 3600) \<and>
   convert_clock_to_seconds uni (PStr ''00:00'') (PInt 4) = Inr (PInt 0) \<and>
   convert_clock_to_seconds uni (PStr ''10:00'') (PInt 5) = Inr (PInt 600) \<and>
   convert_clock_to_seconds uni PNone quarter = Inr PNone"
proof -
  have d: "all_digits ''15''" "all_digits ''00''" "all_digits ''10''"
    by (simp_all add: all_digits_def is_digit_def)
  have v: "digits_value ''15'' = 15" "digits_value ''00'' = 0" "digits_value ''10'' = 10"
    by (simp_all add: digits_value_def digit_val_def)
  have "convert_clock_to_seconds uni (PStr ''15:00'') (PInt 1) = Inr (PInt 3600)"
    using clock_of_digits[of "''15''" "''00''" uni 1] d v by simp
  moreover have "convert_clock_to_seconds uni (PStr ''00:00'') (PInt 4) = Inr (PInt 0)"
    using clock_of_digits[of "''00''" "''00''" uni 4] d v by simp
  moreover have "convert_clock_to_seconds uni (PStr ''10:00'') (PInt 5) = Inr (PInt 600)"
    using clock_of_digits[of "''10''" "''00''" uni 5] d v by simp
  moreover have "convert_clock_to_seconds uni PNone quarter = Inr PNone"
    by (simp add: convert_clock_to_seconds_def)
  ultimately show ?thesis
    using clock_of_digits[of mm ss uni q] by blast
qed

theorem clock_converter_formula_witness:
  "all_digits ''07'' \<and> all_digits ''30'' \<and>
   (\<forall>uni. convert_clock_to_seconds uni (PStr ''07:30'') (PInt 2) = Inr (PInt 2250))"
proof -
  have d: "all_digits ''07''" "all_digits ''30''"
    by (simp_all add: all_digits_def is_digit_def)
  have v: "digits_value ''07'' = 7" "digits_value ''30'' = 30"
    by (simp_all add: digits_value_def digit_val_def)
  have "convert_clock_to_seconds uni (PStr (''07'' @ '':'' @ ''30'')) (PInt 2) =
        Inr (PInt (digits_value ''07'' * 60 + digits_value ''30'' +
                   (if (2::int) \<le> 4 then 15 * 60 * (4 - 2) else 0)))" for uni
    using clock_converter_formula[of "''07''" "''30''" uni 2] d by blast
  with d v show ?thesis by simp
qed

text \<open>
  C10. When the clock is a string and the quarter is absent, the converter raises: a
  ValueError when the string is not two colon-separated integers, and otherwise the
  TypeError of comparing \<open>None\<close> with 4. It never returns a number.
\<close>

theorem clock_present_quarter_absent_raises:
  "convert_clock_to_seconds uni (PStr s) PNone = Inl ValueError \<or>
   convert_clock_to_seconds uni (PStr s) PNone = Inl TypeError"
proof (cases "unpack_minutes_seconds uni (split_on CHR '':'' s)")
  case (Inl e)
  have "e = ValueError"
    using Inl
    by (auto simp: unpack_minutes_seconds_def ebind_def dest: py_int_error
        split: list.splits sum.splits)
  with Inl show ?thesis by (simp add: convert_clock_to_seconds_def)
next
  case (Inr ms)
  then show ?thesis by (simp add: convert_clock_to_seconds_def split: prod.splits)
qed

theorem clock_present_quarter_absent_raises_witness:
  "(\<forall>uni. convert_clock_to_seconds uni (PStr ''10:00'') PNone = Inl TypeError) \<and>
   (\<forall>uni. convert_clock_to_seconds uni (PStr ''1000'') PNone = Inl ValueError)"
proof -
  have a: "convert_clock_to_seconds uni (PStr ''10:00'') PNone \<noteq> Inl ValueError" for uni
    by code_simp
  have b: "convert_clock_to_seconds uni (PStr ''1000'') PNone \<noteq> Inl TypeError" for uni
    by code_simp
  have "convert_clock_to_seconds uni (PStr ''10:00'') PNone = Inl TypeError" for uni
    using clock_present_quarter_absent_raises[of uni "''10:00''"] a by blast
  moreover have "convert_clock_to_seconds uni (PStr ''1000'') PNone = Inl ValueError" for uni
    using clock_present_quarter_absent_raises[of uni "''1000''"] b by blast
  ultimately show ?thesis by blast
qed


section \<open>Timeout Tracker: results\<close>

lemma py_eq_0_not_1800: "py_eq x (PInt 0) \<Longrightarrow> x \<noteq> PInt 1800"
  by (cases x) auto

lemma timeout_step_cap:
  "timeout_step uni r loc st = Inr st' \<Longrightarrow> within_cap st c \<Longrightarrow> within_cap st' c"
  unfolding timeout_step_def within_cap_def
  by (auto simp: ebind_Inr_iff split: if_splits)

lemma overtime_step_cap:
  assumes "overtime_step uni r loc st = Inr st'"
  shows "if is_overtime_reset r then within_cap st' 1 else st' = st"
proof (cases "is_overtime_reset r")
  case True
  then have "overtime_step uni r loc st =
      (let df = st\<lparr>home_timeouts := 1, away_timeouts := 1\<rparr> in
       if py_eq (cell r ''play_type'') (PStr ''Timeout'') then
         ebind (py_in loc (cell r ''description'')) (\<lambda>verbatim.
         ebind (if verbatim then Inr True
                else ebind (py_upper uni loc) (\<lambda>upper.
                     ebind (py_in upper (cell r ''description'')) (\<lambda>upper_hit.
                     Inr (upper_hit \<and> cell r ''description'' \<noteq> PNone)))) (\<lambda>hit.
         Inr (if hit then df\<lparr>home_timeouts := home_timeouts df - 1\<rparr>
              else df\<lparr>away_timeouts := away_timeouts df - 1\<rparr>)))
       else Inr df)"
    by (simp add: overtime_step_def is_overtime_reset_def)
  with assms have "within_cap st' 1"
    by (auto simp: Let_def ebind_Inr_iff within_cap_def split: if_splits)
  with True show ?thesis by simp
next
  case False
  with assms have "st' = st"
    by (auto simp: overtime_step_def is_overtime_reset_def ebind_Inr_iff split: if_splits)
  with False show ?thesis by simp
qed

lemma step_cap:
  assumes "timeout_decrementor uni r st loc = Inr st'" "within_cap st c"
  shows "within_cap st' (if is_overtime_reset r then 1 else if is_half_reset r then 3 else c)"
proof -
  from assms(1) obtain st1 where 1: "timeout_step uni r loc st = Inr st1"
    and 3: "overtime_step uni r loc (half_reset_step r st1) = Inr st'"
    by (auto simp: timeout_decrementor_def ebind_Inr_iff)
  have c1: "within_cap st1 c" using timeout_step_cap[OF 1 assms(2)] .
  have c2: "within_cap (half_reset_step r st1) (if is_half_reset r then 3 else c)"
    using c1 by (simp add: half_reset_step_def is_half_reset_def within_cap_def)
  show ?thesis using overtime_step_cap[OF 3] c2 by (auto split: if_splits)
qed

lemma caps_general:
  "apply_timeouts uni loc st rows = Inr outs \<Longrightarrow> within_cap st c \<Longrightarrow>
   list_all2 within_cap outs (spec_caps c rows)"
proof (induction rows arbitrary: st c outs)
  case Nil
  then show ?case by simp
next
  case (Cons r rs)
  from Cons.prems(1) obtain st' outs' where
    s: "timeout_decrementor uni r st loc = Inr st'" and
    t: "apply_timeouts uni loc st' rs = Inr outs'" and o: "outs = st' # outs'"
    by (auto simp: ebind_Inr_iff)
  from step_cap[OF s Cons.prems(2)] Cons.IH[OF t] o show ?case
    by (simp add: Let_def)
qed

lemma caps_at_most_3: "c \<le> 3 \<Longrightarrow> \<forall>b\<in>set (spec_caps c rows). b \<le> 3"
proof (induction rows arbitrary: c)
  case Nil
  then show ?case by simp
next
  case (Cons r rs)
  let ?c = "if is_overtime_reset r then 1 else if is_half_reset r then 3 else c"
  have "?c \<le> 3" using Cons.prems by simp
  from Cons.IH[OF this] this show ?case by (simp add: Let_def)
qed

lemma apply_timeouts_length: "apply_timeouts uni loc st rows = Inr outs \<Longrightarrow> length outs = length rows"
  by (induction rows arbitrary: st outs) (auto simp: ebind_Inr_iff)

lemma timeout_step_text:
  "cell row ''description'' = PNone \<or> cell row ''description'' = PStr d \<Longrightarrow>
   timeout_step uni row (PStr loc) st =
     Inr (if cell row ''play_type'' = PStr ''Timeout'' \<and> cell row ''description'' \<noteq> PNone
          then (if is_substring loc d \<or> is_substring (str_upper uni loc) d
                then st\<lparr>home_timeouts := home_timeouts st - 1\<rparr>
                else st\<lparr>away_timeouts := away_timeouts st - 1\<rparr>)
          else st)"
  by (auto simp: timeout_step_def py_eq_str)

text \<open>
  C1, as amended. For every row sequence tracked from the initial state (3, 3), the
  values emitted for each row never exceed the bound in force after that row: 3, or 1
  from an overtime reset until the next reset to 3; so they never exceed 3. The lower
  bound of the claim is left out: a timeout play lowers a counter by one without a floor.
\<close>

theorem timeouts_never_exceed_cap:
  assumes "apply_timeouts uni location initial_timeouts rows = Inr outs"
  shows "length outs = length rows \<and>
         list_all2 within_cap outs (spec_caps 3 rows) \<and>
         list_all (\<lambda>st. within_cap st 3) outs"
proof -
  have i: "within_cap initial_timeouts 3"
    by (simp add: within_cap_def initial_timeouts_def)
  have a: "list_all2 within_cap outs (spec_caps 3 rows)"
    using caps_general[OF assms i] .
  have "within_cap st 3" if "st \<in> set outs" for st
  proof -
    from that obtain i where i: "i < length outs" "st = outs ! i"
      by (auto simp: in_set_conv_nth)
    have w: "within_cap st (spec_caps 3 rows ! i)"
      using list_all2_nthD[OF a i(1)] i(2) by simp
    have "spec_caps 3 rows ! i \<in> set (spec_caps 3 rows)"
      using i(1) list_all2_lengthD[OF a] by simp
    with caps_at_most_3[of 3 rows] have "spec_caps 3 rows ! i \<le> 3" by simp
    with w show ?thesis by (simp add: within_cap_def)
  qed
  then have "list_all (\<lambda>st. within_cap st 3) outs"
    by (simp add: list_all_iff)
  with a apply_timeouts_length[OF assms] show ?thesis by simp
qed

theorem timeouts_never_exceed_cap_witness:
  "(\<forall>uni. apply_timeouts uni (PStr ''Alabama'') initial_timeouts
      [sample_row ''Timeout'' (PStr ''Timeout ALABAMA'') 2000 ''Half1'',
       sample_row ''Rush'' (PStr ''Run for 3 yards'') 1800 ''Half2'',
       sample_row ''Timeout'' (PStr ''Timeout Auburn'') 0 ''OT5'',
       sample_row ''Rush'' (PStr ''Run for 2 yards'') 0 ''Half2'']
    = Inr [\<lparr>home_timeouts = 2, away_timeouts = 3\<rparr>, \<lparr>home_timeouts = 3, away_timeouts = 3\<rparr>,
           \<lparr>home_timeouts = 1, away_timeouts = 0\<rparr>, \<lparr>home_timeouts = 1, away_timeouts = 0\<rparr>]) \<and>
   list_all2 within_cap
     [\<lparr>home_timeouts = 2, away_timeouts = 3\<rparr>, \<lparr>home_timeouts = 3, away_timeouts = 3\<rparr>,
      \<lparr>home_timeouts = 1, away_timeouts = 0\<rparr>, \<lparr>home_timeouts = 1, away_timeouts = 0\<rparr>]
     (spec_caps 3
       [sample_row ''Timeout'' (PStr ''Timeout ALABAMA'') 2000 ''Half1'',
        sample_row ''Rush'' (PStr ''Run for 3 yards'') 1800 ''Half2'',
        sample_row ''Timeout'' (PStr ''Timeout Auburn'') 0 ''OT5'',
        sample_row ''Rush'' (PStr ''Run for 2 yards'') 0 ''Half2''])"
proof -
  have h: "apply_timeouts uni (PStr ''Alabama'') initial_timeouts
     [sample_row ''Timeout'' (PStr ''Timeout ALABAMA'') 2000 ''Half1'',
      sample_row ''Rush'' (PStr ''Run for 3 yards'') 1800 ''Half2'',
      sample_row ''Timeout'' (PStr ''Timeout Auburn'') 0 ''OT5'',
      sample_row ''Rush'' (PStr ''Run for 2 yards'') 0 ''Half2'']
   = Inr [\<lparr>home_timeouts = 2, away_timeouts = 3\<rparr>, \<lparr>home_timeouts = 3, away_timeouts = 3\<rparr>,
          \<lparr>home_timeouts = 1, away_timeouts = 0\<rparr>, \<lparr>home_timeouts = 1, away_timeouts = 0\<rparr>]"
    for uni
    by code_simp
  from timeouts_never_exceed_cap[OF h] h show ?thesis by blast
qed

text \<open>
  C1, as the claim states it, fails: four timeout plays naming the home side before any
  reset leave the emitted home count at -1.
\<close>

theorem timeouts_negative_counterexample:
  "\<forall>uni. map_sum id (map home_timeouts)
     (apply_timeouts uni (PStr ''Alabama'') initial_timeouts
        (replicate 4 (sample_row ''Timeout'' (PStr ''Timeout Alabama'') 3000 ''Half1'')))
   = Inr [2, 1, 0, - 1]"
  by (intro allI) code_simp

text \<open>
  C3, as amended. For a \<open>Timeout\<close> row with a description, away from the two reset
  boundaries, the home counter is lowered by one exactly when the description contains
  the home location as given or as \<open>location.upper()\<close> gives it; in every other case,
  also when the description spells the home location in another casing, the away counter
  is lowered. This holds for every location string, whatever the Unicode tables are.
\<close>

theorem timeout_matches_verbatim_or_upper:
  assumes "cell row ''play_type'' = PStr ''Timeout''"
    and "cell row ''description'' = PStr d"
    and "\<not> py_eq (cell row ''game_seconds_remaining'') (PInt 1800)"
    and "py_eq (cell row ''game_seconds_remaining'') (PInt 0) \<longrightarrow>
           py_in (PStr ''OT'') (cell row ''half'') = Inr False"
  shows "timeout_decrementor uni row st (PStr loc) =
     Inr (if is_substring loc d \<or> is_substring (str_upper uni loc) d
          then st\<lparr>home_timeouts := home_timeouts st - 1\<rparr>
          else st\<lparr>away_timeouts := away_timeouts st - 1\<rparr>)"
proof -
  have h: "half_reset_step row df = df" for df
    using assms(3) by (simp add: half_reset_step_def)
  have o: "overtime_step uni row (PStr loc) df = Inr df" for df
    using assms(4) by (simp add: overtime_step_def)
  show ?thesis
    using timeout_step_text[of row d uni loc st] assms(1,2)
    by (simp add: timeout_decrementor_def h o)
qed

theorem timeout_matches_verbatim_or_upper_witness:
  "(\<forall>uni. timeout_decrementor uni
      (sample_row ''Timeout'' (PStr ''Timeout ALABAMA'') 2000 ''Half1'')
      initial_timeouts (PStr ''Alabama'') = Inr \<lparr>home_timeouts = 2, away_timeouts = 3\<rparr>) \<and>
   (\<forall>uni. timeout_decrementor uni
      (sample_row ''Timeout'' (PStr ''Timeout Auburn'') 0 ''Half2'')
      initial_timeouts (PStr ''Alabama'') = Inr \<lparr>home_timeouts = 3, away_timeouts = 2\<rparr>)"
proof -
  let ?r1 = "sample_row ''Timeout'' (PStr ''Timeout ALABAMA'') 2000 ''Half1''"
  let ?r2 = "sample_row ''Timeout'' (PStr ''Timeout Auburn'') 0 ''Half2''"
  have c: "cell ?r1 ''play_type'' = PStr ''Timeout''"
    "cell ?r1 ''description'' = PStr ''Timeout ALABAMA''"
    "\<not> py_eq (cell ?r1 ''game_seconds_remaining'') (PInt 1800)"
    "py_eq (cell ?r1 ''game_seconds_remaining'') (PInt 0) \<longrightarrow>
       py_in (PStr ''OT'') (cell ?r1 ''half'') = Inr False"
    "cell ?r2 ''play_type'' = PStr ''Timeout''"
    "cell ?r2 ''description'' = PStr ''Timeout Auburn''"
    "\<not> py_eq (cell ?r2 ''game_seconds_remaining'') (PInt 1800)"
    "py_eq (cell ?r2 ''game_seconds_remaining'') (PInt 0) \<longrightarrow>
       py_in (PStr ''OT'') (cell ?r2 ''half'') = Inr False"
    by (simp_all add: sample_row_def cell_def)
  have m: "is_substring (str_upper uni ''Alabama'') ''Timeout ALABAMA''"
    "\<not> is_substring ''Alabama'' ''Timeout Auburn''"
    "\<not> is_substring (str_upper uni ''Alabama'') ''Timeout Auburn''" for uni
    by code_simp+
  have "timeout_decrementor uni ?r1 initial_timeouts (PStr ''Alabama'') =
          Inr \<lparr>home_timeouts = 2, away_timeouts = 3\<rparr>" for uni
    using timeout_matches_verbatim_or_upper[OF c(1-4), of uni initial_timeouts "''Alabama''"] m
    by (simp add: initial_timeouts_def)
  moreover have "timeout_decrementor uni ?r2 initial_timeouts (PStr ''Alabama'') =
          Inr \<lparr>home_timeouts = 3, away_timeouts = 2\<rparr>" for uni
    using timeout_matches_verbatim_or_upper[OF c(5-8), of uni initial_timeouts "''Alabama''"] m
    by (simp add: initial_timeouts_def)
  ultimately show ?thesis by blast
qed

text \<open>
  C3, as the claim states it, fails: the description \<open>Timeout alabama\<close> matches the home
  location Alabama when letter case is ignored, yet the away counter is the one lowered.
\<close>

theorem timeout_case_insensitive_counterexample:
  "is_substring (map upper_char ''Alabama'') (map upper_char ''Timeout alabama'') \<and>
   (\<forall>uni. timeout_decrementor uni
      (sample_row ''Timeout'' (PStr ''Timeout alabama'') 2000 ''Half1'')
      initial_timeouts (PStr ''Alabama'') = Inr \<lparr>home_timeouts = 3, away_timeouts = 2\<rparr>)"
  by (intro conjI allI) code_simp+

text \<open>
  C4. For a row whose elapsed seconds equal 1800, whatever the tracker emits is (3, 3),
  for every prior state and also when the row is a \<open>Timeout\<close> play; and it does emit when
  the location is a string and the description is a string or absent.
\<close>

theorem half_reset_emits_three:
  assumes "cell row ''game_seconds_remaining'' = PInt 1800"
  shows "(\<forall>st'. timeout_decrementor uni row st location = Inr st' \<longrightarrow>
            st' = \<lparr>home_timeouts = 3, away_timeouts = 3\<rparr>) \<and>
         ((\<exists>loc. location = PStr loc) \<and>
          (cell row ''description'' = PNone \<or> (\<exists>d. cell row ''description'' = PStr d)) \<longrightarrow>
            timeout_decrementor uni row st location = Inr \<lparr>home_timeouts = 3, away_timeouts = 3\<rparr>)"
proof -
  have h: "half_reset_step row df = \<lparr>home_timeouts = 3, away_timeouts = 3\<rparr>" for df
    by (simp add: half_reset_step_def assms)
  have o: "overtime_step uni row location df = Inr df" for df
    by (simp add: overtime_step_def assms)
  have d: "timeout_decrementor uni row st location =
      ebind (timeout_step uni row location st) (\<lambda>df. Inr \<lparr>home_timeouts = 3, away_timeouts = 3\<rparr>)"
    by (simp add: timeout_decrementor_def h o)
  show ?thesis
    using timeout_step_text[of row _ uni _ st] by (auto simp: d ebind_Inr_iff)
qed

theorem half_reset_emits_three_witness:
  "cell (sample_row ''Timeout'' (PStr ''Timeout Alabama'') 1800 ''Half2'')
     ''game_seconds_remaining'' = PInt 1800 \<and>
   (\<forall>uni. timeout_decrementor uni
      (sample_row ''Timeout'' (PStr ''Timeout Alabama'') 1800 ''Half2'')
      \<lparr>home_timeouts = 0, away_timeouts = 1\<rparr> (PStr ''Alabama'')
    = Inr \<lparr>home_timeouts = 3, away_timeouts = 3\<rparr>)"
proof -
  let ?r = "sample_row ''Timeout'' (PStr ''Timeout Alabama'') 1800 ''Half2''"
  have g: "cell ?r ''game_seconds_remaining'' = PInt 1800"
    and d: "cell ?r ''description'' = PStr ''Timeout Alabama''"
    by (simp_all add: sample_row_def cell_def)
  have "timeout_decrementor uni ?r \<lparr>home_timeouts = 0, away_timeouts = 1\<rparr> (PStr ''Alabama'')
          = Inr \<lparr>home_timeouts = 3, away_timeouts = 3\<rparr>" for uni
    using half_reset_emits_three[OF g, of uni "\<lparr>home_timeouts = 0, away_timeouts = 1\<rparr>"
        "PStr ''Alabama''"] d
    by blast
  with g show ?thesis by blast
qed

text \<open>
  An overtime start with a description: both counters are reset to 1, and a \<open>Timeout\<close>
  play then takes one from the matching side.
\<close>

lemma overtime_reset_with_description:
  assumes "py_eq (cell row ''game_seconds_remaining'') (PInt 0)"
    and "py_in (PStr ''OT'') (cell row ''half'') = Inr True"
    and "cell row ''description'' = PStr d"
  shows "timeout_decrementor uni row st (PStr loc) =
     Inr (if cell row ''play_type'' = PStr ''Timeout''
          then (if is_substring loc d \<or> is_substring (str_upper uni loc) d
                then \<lparr>home_timeouts = 0, away_timeouts = 1\<rparr>
                else \<lparr>home_timeouts = 1, away_timeouts = 0\<rparr>)
          else \<lparr>home_timeouts = 1, away_timeouts = 1\<rparr>)"
proof -
  have o: "overtime_step uni row (PStr loc) df =
     Inr (if cell row ''play_type'' = PStr ''Timeout''
          then (if is_substring loc d \<or> is_substring (str_upper uni loc) d
                then \<lparr>home_timeouts = 0, away_timeouts = 1\<rparr>
                else \<lparr>home_timeouts = 1, away_timeouts = 0\<rparr>)
          else \<lparr>home_timeouts = 1, away_timeouts = 1\<rparr>)" for df
    using assms by (auto simp: overtime_step_def py_eq_str Let_def)
  show ?thesis
    using timeout_step_text[of row d uni loc st] assms(3)
    by (simp add: timeout_decrementor_def o)
qed

text \<open>
  A location beyond ASCII, San Jose State with an acute accent on the e (two bytes in
  UTF-8): when the tables give the same name in capitals for its upper case, a description
  in capitals takes the timeout from the home side.
\<close>

lemma timeout_location_beyond_ascii:
  assumes "unicode_upper uni (''San Jos'' @ [CHR 0xC3, CHR 0xA9] @ '' State'') =
             ''SAN JOS'' @ [CHR 0xC3, CHR 0x89] @ '' STATE''"
  shows "timeout_decrementor uni
           (sample_row ''Timeout''
              (PStr (''Timeout SAN JOS'' @ [CHR 0xC3, CHR 0x89] @ '' STATE'')) 2000 ''Half1'')
           initial_timeouts (PStr (''San Jos'' @ [CHR 0xC3, CHR 0xA9] @ '' State''))
         = Inr \<lparr>home_timeouts = 2, away_timeouts = 3\<rparr>"
proof -
  let ?loc = "''San Jos'' @ [CHR 0xC3, CHR 0xA9] @ '' State''"
  let ?d = "''Timeout SAN JOS'' @ [CHR 0xC3, CHR 0x89] @ '' STATE''"
  let ?r = "sample_row ''Timeout'' (PStr ?d) 2000 ''Half1''"
  have u: "str_upper uni ?loc = ''SAN JOS'' @ [CHR 0xC3, CHR 0x89] @ '' STATE''"
    using assms by (simp add: str_upper_def is_ascii_def)
  have hit: "is_substring (str_upper uni ?loc) ?d"
    unfolding u by code_simp
  have c: "cell ?r ''play_type'' = PStr ''Timeout''" "cell ?r ''description'' = PStr ?d"
    "cell ?r ''game_seconds_remaining'' = PInt 2000"
    by (simp_all add: sample_row_def cell_def)
  have h: "half_reset_step ?r df = df" for df
    by (simp add: half_reset_step_def sample_row_def cell_def)
  have o: "overtime_step uni ?r (PStr ?loc) df = Inr df" for df
    by (simp add: overtime_step_def sample_row_def cell_def)
  have t: "timeout_step uni ?r (PStr ?loc) initial_timeouts =
             Inr \<lparr>home_timeouts = 2, away_timeouts = 3\<rparr>"
    using timeout_step_text[of ?r ?d uni ?loc initial_timeouts] c(1,2) hit
    by (simp add: initial_timeouts_def)
  show ?thesis
    unfolding timeout_decrementor_def t ebind_Inr h o ..
qed

text \<open>
  C6 fails on a \<open>Timeout\<close> row at an overtime start whose description is absent (a play
  whose text is null): line 158 evaluates \<open>location in row['description']\<close> before its
  own test that the description is not \<open>None\<close>, and the TypeError leaves the tracker and
  the builder, so no counters are emitted.
\<close>

theorem overtime_timeout_without_description_raises:
  "(\<forall>uni. timeout_decrementor uni (sample_row ''Timeout'' PNone 0 ''OT5'') initial_timeouts
      (PStr ''Alabama'') = Inl TypeError) \<and>
   (\<forall>uni. get_play_by_play uni
      (sample_game [tagged ''home'' alabama, tagged ''away'' auburn]
         [sample_play ''1'' PNone ''Timeout'' 5 ''0:00'' ''333'']) = Inl TypeError)"
  by (intro conjI allI) code_simp+


section \<open>Roster Resolver: results\<close>

lemma run_stmts_inv:
  "P s \<Longrightarrow> (\<And>f s s'. f \<in> set fs \<Longrightarrow> P s \<Longrightarrow> f s = Inr s' \<Longrightarrow> P s') \<Longrightarrow>
   P (fst (run_stmts fs s))"
proof (induction fs arbitrary: s)
  case Nil
  then show ?case by simp
next
  case (Cons f fs)
  show ?case
  proof (cases "f s")
    case (Inl e)
    with Cons.prems(1) show ?thesis by simp
  next
    case (Inr s')
    have "P s'" using Cons.prems(2)[of f s s'] Cons.prems(1) Inr by simp
    then have "P (fst (run_stmts fs s'))"
      using Cons.prems(2) by (intro Cons.IH) auto
    with Inr show ?thesis by simp
  qed
qed

lemma assign_away_home_absent:
  "home_absent s \<Longrightarrow> home_absent (fst (run_stmts (assign_away c) s))"
  by (rule run_stmts_inv) (auto simp: assign_away_def home_absent_def ebind_Inr_iff)

lemma assign_home_away_absent:
  "away_absent s \<Longrightarrow> away_absent (fst (run_stmts (assign_home c) s))"
  by (rule run_stmts_inv) (auto simp: assign_home_def away_absent_def ebind_Inr_iff)

lemma entry_home_absent:
  "\<not> carries_home_tag json i \<Longrightarrow> home_absent s \<Longrightarrow>
   home_absent (fst (home_away_entry json i s))"
  by (auto simp: home_away_entry_def carries_home_tag_def assign_away_home_absent
      split: sum.splits)

lemma entry_away_absent:
  "carries_home_tag json i \<Longrightarrow> away_absent s \<Longrightarrow>
   away_absent (fst (home_away_entry json i s))"
  by (auto simp: home_away_entry_def carries_home_tag_def assign_home_away_absent
      split: sum.splits)

lemma get_home_away_cases:
  "get_home_away json = fst (home_away_entry json 0 with_default_values) \<or>
   get_home_away json =
     fst (home_away_entry json 1 (fst (home_away_entry json 0 with_default_values)))"
  by (auto simp: get_home_away_def get_home_away_try_def split: prod.splits option.splits)

lemma no_home_tag:
  assumes "\<not> carries_home_tag json 0" "\<not> carries_home_tag json 1"
  shows "home_absent (get_home_away json)"
proof -
  have d: "home_absent with_default_values"
    by (simp add: home_absent_def with_default_values_def)
  have 0: "home_absent (fst (home_away_entry json 0 with_default_values))"
    using entry_home_absent[OF assms(1) d] .
  have 1: "home_absent
      (fst (home_away_entry json 1 (fst (home_away_entry json 0 with_default_values))))"
    using entry_home_absent[OF assms(2) 0] .
  show ?thesis using get_home_away_cases[of json] 0 1 by auto
qed

lemma two_home_tags:
  assumes "carries_home_tag json 0" "carries_home_tag json 1"
  shows "away_absent (get_home_away json)"
proof -
  have d: "away_absent with_default_values"
    by (simp add: away_absent_def with_default_values_def)
  have 0: "away_absent (fst (home_away_entry json 0 with_default_values))"
    using entry_away_absent[OF assms(1) d] .
  have 1: "away_absent
      (fst (home_away_entry json 1 (fst (home_away_entry json 0 with_default_values))))"
    using entry_away_absent[OF assms(2) 0] .
  show ?thesis using get_home_away_cases[of json] 0 1 by auto
qed

section \<open>Play Record Builder: results\<close>

lemma cell_set_cell [simp]: "cell (set_cell k v r) k' = (if k' = k then v else cell r k')"
  by (simp add: cell_def set_cell_def update_conv')

lemma rows_set_column:
  assumes "\<forall>r\<in>set rows. P r" "\<And>r v. P r \<Longrightarrow> Q (set_cell k v r)"
  shows "\<forall>r\<in>set (set_column k vs rows). Q r"
  using assms by (auto simp: set_column_def dest!: set_zip_rightD)

lemma rows_set_scalar:
  assumes "\<forall>r\<in>set rows. P r" "\<And>r. P r \<Longrightarrow> Q (set_cell k v r)"
  shows "\<forall>r\<in>set (set_scalar k v rows). Q r"
  using assms by (auto simp: set_scalar_def)

lemma rows_set_computed:
  assumes "\<forall>r\<in>set rows. P r" "\<And>r. P r \<Longrightarrow> Q (set_cell k (f r) r)"
  shows "\<forall>r\<in>set (set_computed k f rows). Q r"
  using assms by (auto simp: set_computed_def)

lemma keep_column:
  assumes "\<forall>r\<in>set rows. P r" "\<And>r v. P r \<Longrightarrow> P (set_cell k v r)"
  shows "\<forall>r\<in>set (set_column k vs rows). P r"
  using assms by (rule rows_set_column)

lemma keep_scalar:
  assumes "\<forall>r\<in>set rows. P r" "\<And>r. P r \<Longrightarrow> P (set_cell k v r)"
  shows "\<forall>r\<in>set (set_scalar k v rows). P r"
  using assms by (rule rows_set_scalar)

lemma keep_computed:
  assumes "\<forall>r\<in>set rows. P r" "\<And>r. P r \<Longrightarrow> P (set_cell k (f r) r)"
  shows "\<forall>r\<in>set (set_computed k f rows). P r"
  using assms by (rule rows_set_computed)

lemma frame_to_clock_rule: "\<forall>r\<in>set (frame_to_clock g t plays df). defteam_rule t r"
proof -
  let ?d1 = "set_scalar ''home_id'' (hid t) df"
  let ?d3 = "set_scalar ''home_rank'' (h_rank t) (set_scalar ''home_team'' (home_team t) ?d1)"
  let ?d4 = "set_scalar ''away_id'' (aid t) ?d3"
  let ?d10 = "set_computed ''posteam_type'' posteam_type_of
               (set_column ''posteam'' (map pl_posteam plays)
                 (set_scalar ''week'' (week g)
                   (set_scalar ''season_type''
                      (if py_eq (season_type g) (PInt 2) then PStr ''regular'' else PStr ''bowl'')
                     (set_scalar ''away_rank'' (a_rank t)
                       (set_scalar ''away_team'' (away_team t) ?d4)))))"
  let ?d11 = "set_computed ''defteam'' (defteam_of (hid t) (aid t)) ?d10"
  let ?ids = "\<lambda>r. cell r ''home_id'' = hid t \<and> cell r ''away_id'' = aid t"
  have 1: "\<forall>r\<in>set ?d1. cell r ''home_id'' = hid t"
    by (rule rows_set_scalar[where P = "\<lambda>r. True"]) simp_all
  have 3: "\<forall>r\<in>set ?d3. cell r ''home_id'' = hid t"
    by (rule keep_scalar, rule keep_scalar, rule 1) simp_all
  have 4: "\<forall>r\<in>set ?d4. ?ids r"
    by (rule rows_set_scalar[OF 3]) simp
  have 10: "\<forall>r\<in>set ?d10. ?ids r"
    by (rule keep_computed, rule keep_column, rule keep_scalar, rule keep_scalar,
        rule keep_scalar, rule keep_scalar, rule 4) simp_all
  have 11: "\<forall>r\<in>set ?d11. defteam_rule t r"
    by (rule rows_set_computed[OF 10]) (simp add: defteam_rule_def defteam_of_def)
  show ?thesis
    unfolding frame_to_clock_def Let_def
    by (rule keep_column, rule keep_column, rule keep_scalar, rule keep_column, rule 11)
       (simp_all add: defteam_rule_def)
qed

lemma frame_to_description_rule:
  assumes "\<forall>r\<in>set df. defteam_rule t r"
  shows "\<forall>r\<in>set (frame_to_description plays seconds df). defteam_rule t r"
  unfolding frame_to_description_def Let_def
  by (rule keep_column, rule keep_column, rule keep_column, rule keep_column, rule keep_column,
      rule keep_computed, rule keep_column, rule assms) (simp_all add: defteam_rule_def)

lemma frame_timeouts_rule:
  assumes "\<forall>r\<in>set df. defteam_rule t r"
  shows "\<forall>r\<in>set (frame_timeouts outs df). defteam_rule t r"
  unfolding frame_timeouts_def Let_def
  by (rule keep_computed, rule keep_computed, rule keep_column, rule keep_column, rule assms)
     (simp_all add: defteam_rule_def)

lemma build_frame_rule:
  assumes "build_frame uni json teams = (rows, err)"
    and "err = None \<or> err = Some AttributeError"
    and "r \<in> set rows"
  shows "\<exists>t. teams = Some t \<and> defteam_rule t r"
proof (cases teams)
  case None
  with assms show ?thesis
    by (auto simp: build_frame_def split: sum.splits)
next
  case (Some t)
  have a: "\<forall>r\<in>set (frame_to_clock g t plays (frame_ids g plays)). defteam_rule t r"
    for g plays
    by (rule frame_to_clock_rule)
  have b: "\<forall>r\<in>set (frame_to_description plays seconds
              (frame_to_clock g t plays (frame_ids g plays))). defteam_rule t r"
    for g plays seconds
    by (rule frame_to_description_rule[OF a])
  have c: "\<forall>r\<in>set (frame_timeouts outs (frame_to_description plays seconds
              (frame_to_clock g t plays (frame_ids g plays)))). defteam_rule t r"
    for g plays seconds outs
    by (rule frame_timeouts_rule[OF b])
  from assms Some a b c show ?thesis
    by (auto simp: build_frame_def Let_def split: sum.splits if_splits)
qed

lemma built_rows_rule:
  assumes "get_play_by_play uni json = Inr rows" "r \<in> set rows"
  shows "\<exists>t. resolve_teams json = Inr (Some t) \<and> defteam_rule t r"
proof -
  from assms(1) obtain teams where t: "resolve_teams json = Inr teams"
    and b: "(case build_frame uni json teams of
       (game_df, None) \<Rightarrow> Inr game_df
     | (game_df, Some e) \<Rightarrow> if e = AttributeError then Inr game_df else Inl e) = Inr rows"
    by (auto simp: get_play_by_play_def ebind_Inr_iff)
  obtain df err where f: "build_frame uni json teams = (df, err)"
    by (cases "build_frame uni json teams")
  from b f have "df = rows" "err = None \<or> err = Some AttributeError"
    by (auto split: option.splits if_splits)
  with build_frame_rule[OF f _ ] assms(2) t show ?thesis by auto
qed

text \<open>
  C2, as amended. When neither of the first two competitors is read as the home side (for
  example when both lack the \<open>homeAway\<close> key), the resolver returns a result whose home
  values are all absent, and every row the builder then emits for the game carries an
  absent \<open>home_id\<close>; when both are read as the home side, the away values are all absent.
  The resolver returns in every case: the code has no IncompleteDataError.
\<close>

theorem resolver_returns_without_home_tag:
  "(\<not> carries_home_tag competitors 0 \<and> \<not> carries_home_tag competitors 1 \<longrightarrow>
      home_absent (get_home_away competitors) \<and>
      (\<forall>json rows r. header_competitors json = Inr competitors \<and>
          get_play_by_play uni json = Inr rows \<and> r \<in> set rows \<longrightarrow>
          cell r ''home_id'' = PNone)) \<and>
   (carries_home_tag competitors 0 \<and> carries_home_tag competitors 1 \<longrightarrow>
      away_absent (get_home_away competitors))"
proof (intro conjI impI allI)
  assume "\<not> carries_home_tag competitors 0 \<and> \<not> carries_home_tag competitors 1"
  then show "home_absent (get_home_away competitors)"
    using no_home_tag by blast
next
  fix json rows r
  assume n: "\<not> carries_home_tag competitors 0 \<and> \<not> carries_home_tag competitors 1"
    and b: "header_competitors json = Inr competitors \<and>
            get_play_by_play uni json = Inr rows \<and> r \<in> set rows"
  from b have "resolve_teams json = Inr (Some (get_home_away competitors))"
    by (simp add: resolve_teams_def)
  with built_rows_rule[of uni json rows r] b
  have "cell r ''home_id'' = hid (get_home_away competitors)"
    by (auto simp: defteam_rule_def)
  moreover have "hid (get_home_away competitors) = PNone"
    using n no_home_tag[of competitors] by (simp add: home_absent_def)
  ultimately show "cell r ''home_id'' = PNone" by simp
next
  assume "carries_home_tag competitors 0 \<and> carries_home_tag competitors 1"
  then show "away_absent (get_home_away competitors)"
    using two_home_tags by blast
qed

theorem resolver_returns_without_home_tag_witness:
  "\<not> carries_home_tag (PList [untagged alabama, untagged auburn]) 0 \<and>
   \<not> carries_home_tag (PList [untagged alabama, untagged auburn]) 1 \<and>
   home_absent (get_home_away (PList [untagged alabama, untagged auburn])) \<and>
   header_competitors untagged_game = Inr (PList [untagged alabama, untagged auburn]) \<and>
   (\<forall>uni. get_play_by_play uni untagged_game = Inr untagged_game_rows) \<and>
   cell (hd untagged_game_rows) ''home_id'' = PNone \<and>
   carries_home_tag (PList [tagged ''home'' alabama, tagged ''home'' auburn]) 0 \<and>
   carries_home_tag (PList [tagged ''home'' alabama, tagged ''home'' auburn]) 1 \<and>
   away_absent (get_home_away (PList [tagged ''home'' alabama, tagged ''home'' auburn]))"
proof -
  let ?u = "PList [untagged alabama, untagged auburn]"
  let ?h = "PList [tagged ''home'' alabama, tagged ''home'' auburn]"
  have u: "\<not> carries_home_tag ?u 0" "\<not> carries_home_tag ?u 1"
    by code_simp+
  have h: "carries_home_tag ?h 0" "carries_home_tag ?h 1"
    by code_simp+
  have c: "header_competitors untagged_game = Inr ?u"
    by code_simp
  have g: "get_play_by_play uni untagged_game = Inr untagged_game_rows" for uni
    by code_simp
  have m: "hd untagged_game_rows \<in> set untagged_game_rows"
    by (simp add: untagged_game_rows_def)
  from resolver_returns_without_home_tag[of ?u] u c g m
  have "home_absent (get_home_away ?u)" "cell (hd untagged_game_rows) ''home_id'' = PNone"
    by blast+
  moreover from resolver_returns_without_home_tag[of ?h] h
  have "away_absent (get_home_away ?h)" by blast
  ultimately show ?thesis using u h c g by blast
qed

text \<open>
  C2, as the claim states it, fails: for two competitors without a \<open>homeAway\<close> key the
  resolver returns its twelve values, the home ones \<open>None\<close> and the away ones those of
  the second entry, and the builder emits the game's row with \<open>home_id\<close> \<open>None\<close>.
\<close>

theorem resolver_untagged_counterexample:
  "get_home_away (PList [untagged alabama, untagged auburn]) =
     \<lparr>home_team = PNone, hid = PNone, away_team = PStr ''AUB'', aid = PStr ''2'',
      h_color = PNone, a_color = PStr ''9e1b32'', h_rank = PNone, a_rank = PNaN,
      h_logo = PNone, a_logo = PStr ''http://logo'', h_location = PNone,
      a_location = PStr ''Auburn''\<rparr> \<and>
   (\<forall>uni. get_play_by_play uni untagged_game = Inr untagged_game_rows) \<and>
   map (\<lambda>r. cell r ''home_id'') untagged_game_rows = [PNone]"
  by (intro conjI allI) code_simp+

text \<open>
  C7. In every row the builder returns, the defending team is the away id when the
  possessing team equals the home id, and the home id in every other case, which includes
  a possessing team that is neither side.
\<close>

theorem defteam_is_other_side:
  assumes "get_play_by_play uni json = Inr rows" and "r \<in> set rows"
  shows "cell r ''defteam'' =
           (if py_eq (cell r ''posteam'') (cell r ''home_id'')
            then cell r ''away_id'' else cell r ''home_id'')"
  using built_rows_rule[OF assms] by (auto simp: defteam_rule_def)

theorem defteam_is_other_side_witness:
  "(\<forall>uni. get_play_by_play uni tagged_game = Inr tagged_game_rows) \<and>
   cell (tagged_game_rows ! 0) ''posteam'' = cell (tagged_game_rows ! 0) ''home_id'' \<and>
   cell (tagged_game_rows ! 0) ''defteam'' = cell (tagged_game_rows ! 0) ''away_id'' \<and>
   cell (tagged_game_rows ! 1) ''posteam'' = PStr ''999'' \<and>
   cell (tagged_game_rows ! 1) ''defteam'' = cell (tagged_game_rows ! 1) ''home_id''"
proof -
  have e: "get_play_by_play uni tagged_game = Inr tagged_game_rows" for uni
    by code_simp
  have m: "tagged_game_rows ! 0 \<in> set tagged_game_rows"
    "tagged_game_rows ! 1 \<in> set tagged_game_rows"
    by (simp_all add: tagged_game_rows_def)
  have p: "cell (tagged_game_rows ! 0) ''posteam'' = PStr ''333''"
    "cell (tagged_game_rows ! 0) ''home_id'' = PStr ''333''"
    "cell (tagged_game_rows ! 1) ''posteam'' = PStr ''999''"
    "cell (tagged_game_rows ! 1) ''home_id'' = PStr ''333''"
    by (simp_all add: tagged_game_rows_def cell_def)
  from defteam_is_other_side[OF e m(1)] defteam_is_other_side[OF e m(2)] p e
  show ?thesis by simp
qed

text \<open>
  C8, as amended. For every payload with no drives entry at all (\<open>json.get('drives')\<close> is
  \<open>None\<close>), the builder returns the empty frame whenever the lookup of the competitors in
  the header resolves, or raises the AttributeError that the builder catches.
\<close>

theorem no_drives_gives_empty_frame:
  assumes "lacks_drives json"
    and "(\<exists>competitors. header_competitors json = Inr competitors) \<or>
         header_competitors json = Inl AttributeError"
  shows "get_play_by_play uni json = Inr []"
proof -
  have "extract_plays json = Inl AttributeError"
    using assms(1) by (auto simp: lacks_drives_def extract_plays_def)
  then have "build_frame uni json teams = ([], Some AttributeError)" for teams
    by (simp add: build_frame_def)
  with assms(2) show ?thesis
    by (auto simp: get_play_by_play_def resolve_teams_def)
qed

theorem no_drives_gives_empty_frame_witness:
  "lacks_drives game_without_drives \<and>
   header_competitors game_without_drives =
     Inr (PList [tagged ''home'' alabama, tagged ''away'' auburn]) \<and>
   (\<forall>uni. get_play_by_play uni game_without_drives = Inr []) \<and>
   lacks_drives (PDict []) \<and>
   header_competitors (PDict []) = Inl AttributeError \<and>
   (\<forall>uni. get_play_by_play uni (PDict []) = Inr [])"
proof -
  have l: "lacks_drives game_without_drives" "lacks_drives (PDict [])"
    by code_simp+
  have h: "header_competitors game_without_drives =
      Inr (PList [tagged ''home'' alabama, tagged ''away'' auburn])"
    "header_competitors (PDict []) = Inl AttributeError"
    by code_simp+
  have "get_play_by_play uni game_without_drives = Inr []" for uni
    using no_drives_gives_empty_frame[OF l(1), of uni] h(1) by blast
  moreover have "get_play_by_play uni (PDict []) = Inr []" for uni
    using no_drives_gives_empty_frame[OF l(2), of uni] h(2) by blast
  ultimately show ?thesis using l h by blast
qed

text \<open>
  C8, as the claim states it, fails: a payload whose header resolves and whose drives
  entry is an empty object has no list of drives and no plays, and the builder raises
  the TypeError of iterating over \<open>None\<close> at line 218 instead of returning an empty frame.
\<close>

theorem drives_without_list_counterexample:
  "header_competitors game_with_empty_drives =
     Inr (PList [tagged ''home'' alabama, tagged ''away'' auburn]) \<and>
   ebind (py_get game_with_empty_drives ''drives'') (\<lambda>drives. py_get drives ''previous'') =
     Inr PNone \<and>
   (\<forall>uni. get_play_by_play uni game_with_empty_drives = Inl TypeError)"
  by (intro conjI allI) code_simp+

section \<open>Batch cleanup: results\<close>

lemma apply_positive_nonneg: "\<forall>r\<in>set (apply_positive rows). 0 \<le> play_id r"
  by (simp add: apply_positive_def positive_def)

lemma apply_positive_idem: "apply_positive (apply_positive rows) = apply_positive rows"
  by (simp add: apply_positive_def positive_def)

lemma apply_positive_columns:
  "map play_id (apply_positive rows) = map (\<lambda>r. \<bar>play_id r\<bar>) rows \<and>
   map other_columns (apply_positive rows) = map other_columns rows"
  by (simp add: apply_positive_def positive_def)

lemma clean_loop_props:
  "clean_loop csv_files files combined = Inr (files', combined') \<Longrightarrow>
   (\<forall>f. files' f =
      (if f \<in> set csv_files then map_option apply_positive (files f) else files f)) \<and>
   (\<exists>new. combined' = combined @ new \<and> (\<forall>r\<in>set new. 0 \<le> play_id r))"
proof (induction csv_files arbitrary: files combined)
  case Nil
  then show ?case by simp
next
  case (Cons p ps)
  from Cons.prems obtain rows where r: "files p = Some rows"
    and l: "clean_loop ps (files(p \<mapsto> apply_positive rows)) (combined @ apply_positive rows) =
            Inr (files', combined')"
    by (auto split: option.splits simp: Let_def)
  from Cons.IH[OF l] r apply_positive_idem[of rows] apply_positive_nonneg[of rows]
  show ?case by auto
qed

text \<open>
  C9. After the cleanup pass over the season files, every file it rewrote holds its
  original rows with \<open>play_id\<close> replaced by its absolute value and the other columns
  unchanged, and every \<open>play_id\<close> in the rewritten files and in the combined file is
  non-negative.
\<close>

theorem cleanup_play_ids_absolute:
  assumes "clean csv_files files = Inr files'"
  shows "(\<forall>f\<in>set csv_files. f \<noteq> ''years/combined.csv'' \<longrightarrow>
            files' f = map_option apply_positive (files f)) \<and>
         (\<forall>rows :: 'b csv_row list.
            map play_id (apply_positive rows) = map (\<lambda>r. \<bar>play_id r\<bar>) rows \<and>
                 map other_columns (apply_positive rows) = map other_columns rows) \<and>
         (\<forall>f rows. (f \<in> set csv_files \<or> f = ''years/combined.csv'') \<and> files' f = Some rows
            \<longrightarrow> (\<forall>r\<in>set rows. 0 \<le> play_id r))"
proof -
  from assms obtain fs combined where l: "clean_loop csv_files files [] = Inr (fs, combined)"
    and f': "files' = fs(''years/combined.csv'' \<mapsto> combined)"
    by (auto simp: clean_def ebind_Inr_iff)
  from clean_loop_props[OF l]
  have fs: "\<And>f. fs f =
      (if f \<in> set csv_files then map_option apply_positive (files f) else files f)"
    and c: "\<forall>r\<in>set combined. 0 \<le> play_id r"
    by auto
  have 1: "\<forall>f\<in>set csv_files. f \<noteq> ''years/combined.csv'' \<longrightarrow>
            files' f = map_option apply_positive (files f)"
    using fs f' by simp
  have 3: "\<forall>r\<in>set rows. 0 \<le> play_id r"
    if "(f \<in> set csv_files \<or> f = ''years/combined.csv'') \<and> files' f = Some rows" for f rows
  proof (cases "f = ''years/combined.csv''")
    case True
    with that f' c show ?thesis by simp
  next
    case False
    with that fs[of f] f' obtain orig where "rows = apply_positive orig"
      by (auto split: if_splits)
    then show ?thesis using apply_positive_nonneg by blast
  qed
  show ?thesis
  proof (intro conjI allI impI)
    show "\<forall>f\<in>set csv_files. f \<noteq> ''years/combined.csv'' \<longrightarrow>
            files' f = map_option apply_positive (files f)"
      by (rule 1)
  next
    fix rows :: "'b csv_row list"
    show "map play_id (apply_positive rows) = map (\<lambda>r. \<bar>play_id r\<bar>) rows"
      using apply_positive_columns by blast
    show "map other_columns (apply_positive rows) = map other_columns rows"
      using apply_positive_columns by blast
  next
    fix f rows
    assume "(f \<in> set csv_files \<or> f = ''years/combined.csv'') \<and> files' f = Some rows"
    then show "\<forall>r\<in>set rows. 0 \<le> play_id r"
      by (rule 3)
  qed
qed

theorem cleanup_play_ids_absolute_witness:
  "clean [''years/2023.csv'']
     [''years/2023.csv'' \<mapsto>
        [\<lparr>play_id = - 5, other_columns = ''Kickoff''\<rparr>, \<lparr>play_id = 7, other_columns = ''Rush''\<rparr>]]
   = Inr [''years/2023.csv'' \<mapsto>
            [\<lparr>play_id = 5, other_columns = ''Kickoff''\<rparr>, \<lparr>play_id = 7, other_columns = ''Rush''\<rparr>],
          ''years/combined.csv'' \<mapsto>
            [\<lparr>play_id = 5, other_columns = ''Kickoff''\<rparr>, \<lparr>play_id = 7, other_columns = ''Rush''\<rparr>]] \<and>
   list_all (\<lambda>r. 0 \<le> play_id r)
     [\<lparr>play_id = 5, other_columns = ''Kickoff''\<rparr>, \<lparr>play_id = 7, other_columns = ''Rush''\<rparr>]"
proof -
  let ?files = "[''years/2023.csv'' \<mapsto>
        [\<lparr>play_id = - 5, other_columns = ''Kickoff''\<rparr>, \<lparr>play_id = 7, other_columns = ''Rush''\<rparr>]]"
  let ?out = "[\<lparr>play_id = 5, other_columns = ''Kickoff''\<rparr>, \<lparr>play_id = 7, other_columns = ''Rush''\<rparr>]"
  let ?files' = "[''years/2023.csv'' \<mapsto> ?out, ''years/combined.csv'' \<mapsto> ?out]"
  have h: "clean [''years/2023.csv''] ?files = Inr ?files'"
    by (simp add: clean_def apply_positive_def positive_def Let_def)
  have s: "(''years/2023.csv'' \<in> set [''years/2023.csv''] \<or>
            ''years/2023.csv'' = ''years/combined.csv'') \<and>
           ?files' ''years/2023.csv'' = Some ?out"
    by simp
  note t = cleanup_play_ids_absolute[OF h, THEN conjunct2, THEN conjunct2]
  from t[rule_format, OF s]
  have "\<forall>r\<in>set ?out. 0 \<le> play_id r" by blast
  with h show ?thesis by (simp add: list_all_iff)
qed

end
